theory Spec2Isabelle
  imports Main "HOL-Library.Word" "HOL-Library.Signed_Division" "HOL-Library.Sublist"
    "HOL-Library.Monad_Syntax"
begin

section \<open>Go values\<close>

text \<open>
  Go's \<open>int\<close> is modelled in two ways. The arguments of \<open>CalculateNewIndex\<close> and
  \<open>ensureVisible\<close> are arbitrary machine integers, so their arithmetic is done on 64-bit
  words (the width of \<open>int\<close> on the 64-bit targets the program is built for): \<open>+\<close> and
  \<open>-\<close> wrap around, comparisons are the signed ones (\<open><s\<close>, \<open>\<le>s\<close>) and \<open>sint\<close> reads
  the value. Indices into slices and counters bounded by the length of a slice
  (\<open>SearchResults\<close>, \<open>CurrentMatch\<close>, the selected indices, the success and failure
  counts) cannot leave that range and are mathematical integers.

  Strings are byte strings, as in Go. A nil slice and an empty slice are both the empty
  list: the program only ever takes their length.
\<close>

type_synonym go_int = "64 word"

text \<open>Go's \<open>/\<close> on \<open>int\<close> truncates towards zero.\<close>

definition go_quot :: "go_int \<Rightarrow> go_int \<Rightarrow> go_int" where
  "go_quot a b = word_of_int (sint a sdiv sint b)"

text \<open>
  Indexing a slice panics outside \<open>[0, len)\<close>; the panic is the value \<open>None\<close>.
\<close>

definition go_index :: "'a list \<Rightarrow> int \<Rightarrow> 'a option" where
  "go_index xs i = (if 0 \<le> i \<and> i < int (length xs) then Some (xs ! nat i) else None)"

subsection \<open>The functions of package strings that the program calls\<close>

text \<open>
  \<open>strings.ToLower\<close>. On a string of ASCII bytes only (every byte below
  \<open>utf8.RuneSelf\<close>, 128) it maps the bytes \<open>A\<close> to \<open>Z\<close> to \<open>a\<close> to \<open>z\<close> and leaves
  the others. On every other string it is \<open>strings.Map(unicode.ToLower, s)\<close>, which
  decodes the string as UTF-8, maps each code point through the case tables of package
  unicode and encodes the result again (an invalid byte becomes U+FFFD). That function of
  the library is the parameter \<open>unicodeLower\<close> of \<open>ToLower\<close> and of everything that
  calls it: what is proved holds whatever it returns.
\<close>

definition isASCII :: "string \<Rightarrow> bool" where
  "isASCII s = list_all (\<lambda>c. (of_char c :: nat) < 128) s"

definition toLowerChar :: "char \<Rightarrow> char" where
  "toLowerChar c =
     (let n = (of_char c :: nat) in if 65 \<le> n \<and> n \<le> 90 then char_of (n + 32) else c)"

definition ToLower :: "(string \<Rightarrow> string) \<Rightarrow> string \<Rightarrow> string" where
  "ToLower unicodeLower s = (if isASCII s then map toLowerChar s else unicodeLower s)"

text \<open>\<open>strings.Contains s substr\<close>: \<open>substr\<close> occurs in \<open>s\<close> as a contiguous run.\<close>

fun Contains :: "string \<Rightarrow> string \<Rightarrow> bool" where
  "Contains [] substr = (substr = [])"
| "Contains (c # s) substr = (prefix substr (c # s) \<or> Contains s substr)"

text \<open>\<open>strings.HasPrefix\<close>.\<close>

definition HasPrefix :: "string \<Rightarrow> string \<Rightarrow> bool" where
  "HasPrefix s p = prefix p s"

text \<open>
  \<open>strings.Fields\<close> splits around runs of white space as \<open>unicode.IsSpace\<close> defines it.
  \<open>spaceWidth\<close> is the number of bytes of the white-space character at the head of a
  string, 0 when there is none: the six ASCII ones, and the UTF-8 encodings of U+0085,
  U+00A0, U+1680, U+2000 to U+200A, U+2028, U+2029, U+202F, U+205F and U+3000.
\<close>

definition spaceWidth :: "string \<Rightarrow> nat" where
  "spaceWidth s =
    (case map of_char s :: nat list of
       [] \<Rightarrow> 0
     | c # r1 \<Rightarrow>
        if c = 9 \<or> c = 10 \<or> c = 11 \<or> c = 12 \<or> c = 13 \<or> c = 32 then 1
        else (case r1 of
           [] \<Rightarrow> 0
         | d # r2 \<Rightarrow>
            if c = 194 \<and> (d = 133 \<or> d = 160) then 2
            else (case r2 of
               [] \<Rightarrow> 0
             | e # r3 \<Rightarrow>
                if (c = 225 \<and> d = 154 \<and> e = 128)
                 \<or> (c = 226 \<and> d = 128 \<and> (128 \<le> e \<and> e \<le> 138 \<or> e = 168 \<or> e = 169 \<or> e = 175))
                 \<or> (c = 226 \<and> d = 129 \<and> e = 159)
                 \<or> (c = 227 \<and> d = 128 \<and> e = 128)
                then 3 else 0)))"

text \<open>
  \<open>fieldsFrom k cur s\<close>: \<open>k\<close> bytes of a white-space character are still to be skipped,
  \<open>cur\<close> is the field read so far.
\<close>

fun fieldsFrom :: "nat \<Rightarrow> string \<Rightarrow> string \<Rightarrow> string list" where
  "fieldsFrom k cur [] = (if cur = [] then [] else [cur])"
| "fieldsFrom k cur (c # cs) =
     (if 0 < k then fieldsFrom (k - 1) cur cs
      else let w = spaceWidth (c # cs) in
        if 0 < w then (if cur = [] then [] else [cur]) @ fieldsFrom (w - 1) [] cs
        else fieldsFrom 0 (cur @ [c]) cs)"

definition Fields :: "string \<Rightarrow> string list" where
  "Fields s = fieldsFrom 0 [] s"

text \<open>\<open>fmt.Sprintf("%d", n)\<close>.\<close>

function digits :: "nat \<Rightarrow> string" where
  "digits n = (if n < 10 then [char_of (48 + n)] else digits (n div 10) @ [char_of (48 + n mod 10)])"
  by pat_completeness auto
termination
  by (relation "measure (\<lambda>n. n)") auto

definition itoa :: "int \<Rightarrow> string" where
  "itoa i = (if i < 0 then CHR ''-'' # digits (nat (- i)) else digits (nat i))"

section \<open>Package vim (internal/vim/vim.go)\<close>

datatype Mode = NormalMode | SearchMode | CommandMode

text \<open>A key press is represented by the string that \<open>msg.String()\<close> returns for it.\<close>

type_synonym KeyMsg = string

record State =
  Mode :: Mode
  SearchQuery :: string
  SearchResults :: "int list"
  CurrentMatch :: int
  CommandBuffer :: string
  LastSearch :: string
  MarkPosition :: "nat \<rightharpoonup> int"

definition NewState :: State where
  "NewState = \<lparr> Mode = NormalMode, SearchQuery = [], SearchResults = [], CurrentMatch = 0,
                CommandBuffer = [], LastSearch = [], MarkPosition = Map.empty \<rparr>"

text \<open>The methods mutate the receiver; here they return the new state.\<close>

definition handleSearchMode :: "State \<Rightarrow> KeyMsg \<Rightarrow> bool \<times> State" where
  "handleSearchMode s msg =
    (if msg = ''enter'' then (True, s\<lparr>LastSearch := SearchQuery s, Mode := NormalMode\<rparr>)
     else if msg = ''esc'' then
       (True, s\<lparr>SearchQuery := [], SearchResults := [], CurrentMatch := 0, Mode := NormalMode\<rparr>)
     else if msg = ''backspace'' then
       (True, if 0 < length (SearchQuery s) then s\<lparr>SearchQuery := butlast (SearchQuery s)\<rparr> else s)
     else
       (True, if length msg = 1 then s\<lparr>SearchQuery := SearchQuery s @ msg\<rparr> else s))"

definition handleCommandMode :: "State \<Rightarrow> KeyMsg \<Rightarrow> bool \<times> State" where
  "handleCommandMode s msg =
    (if msg = ''enter'' then (True, s\<lparr>Mode := NormalMode\<rparr>)
     else if msg = ''esc'' then (True, s\<lparr>CommandBuffer := [], Mode := NormalMode\<rparr>)
     else if msg = ''backspace'' then
       (True, if 0 < length (CommandBuffer s) then s\<lparr>CommandBuffer := butlast (CommandBuffer s)\<rparr> else s)
     else
       (True, if length msg = 1 then s\<lparr>CommandBuffer := CommandBuffer s @ msg\<rparr> else s))"

definition HandleKey :: "State \<Rightarrow> KeyMsg \<Rightarrow> bool \<times> State" where
  "HandleKey s msg =
    (case Mode s of
       SearchMode \<Rightarrow> handleSearchMode s msg
     | CommandMode \<Rightarrow> handleCommandMode s msg
     | NormalMode \<Rightarrow> (False, s))"

definition EnterSearchMode :: "State \<Rightarrow> State" where
  "EnterSearchMode s = s\<lparr>Mode := SearchMode, SearchQuery := [], SearchResults := [], CurrentMatch := 0\<rparr>"

definition EnterCommandMode :: "State \<Rightarrow> State" where
  "EnterCommandMode s = s\<lparr>Mode := CommandMode, CommandBuffer := []\<rparr>"

text \<open>
  The loop of \<open>SearchItems\<close>: \<open>i\<close> is the index of the next item, \<open>acc\<close> the results
  appended so far.
\<close>

fun searchLoop :: "(string \<Rightarrow> string) \<Rightarrow> string \<Rightarrow> int \<Rightarrow> string list \<Rightarrow> int list \<Rightarrow> int list" where
  "searchLoop unicodeLower query i [] acc = acc"
| "searchLoop unicodeLower query i (item # items) acc =
     searchLoop unicodeLower query (i + 1) items (if Contains (ToLower unicodeLower item) query then acc @ [i] else acc)"

definition SearchItems :: "(string \<Rightarrow> string) \<Rightarrow> State \<Rightarrow> string list \<Rightarrow> State" where
  "SearchItems unicodeLower s items =
    (let s = s\<lparr>SearchResults := []\<rparr>;
         query = ToLower unicodeLower (SearchQuery s);
         s = s\<lparr>SearchResults := searchLoop unicodeLower query 0 items (SearchResults s)\<rparr>
     in if 0 < length (SearchResults s) then s\<lparr>CurrentMatch := 0\<rparr> else s)"

text \<open>
  The three accessors return the match and the new state, or \<open>None\<close> when the index
  expression panics. Go's \<open>%\<close> is the truncated remainder \<open>smod\<close>.
\<close>

definition NextMatch :: "State \<Rightarrow> (int \<times> State) option" where
  "NextMatch s =
    (if length (SearchResults s) = 0 then Some (- 1, s)
     else
       let s = s\<lparr>CurrentMatch := (CurrentMatch s + 1) smod int (length (SearchResults s))\<rparr>
       in map_option (\<lambda>v. (v, s)) (go_index (SearchResults s) (CurrentMatch s)))"

definition PrevMatch :: "State \<Rightarrow> (int \<times> State) option" where
  "PrevMatch s =
    (if length (SearchResults s) = 0 then Some (- 1, s)
     else
       let s = s\<lparr>CurrentMatch := CurrentMatch s - 1\<rparr>;
           s = (if CurrentMatch s < 0 then s\<lparr>CurrentMatch := int (length (SearchResults s)) - 1\<rparr> else s)
       in map_option (\<lambda>v. (v, s)) (go_index (SearchResults s) (CurrentMatch s)))"

definition GetCurrentMatch :: "State \<Rightarrow> int option" where
  "GetCurrentMatch s =
    (if length (SearchResults s) = 0 then Some (- 1)
     else go_index (SearchResults s) (CurrentMatch s))"

datatype NavigationAction = NoAction | MoveUp | MoveDown | MoveTop | MoveBottom
  | MoveHalfPageUp | MoveHalfPageDown | MovePageUp | MovePageDown
  | EnterSearch | NextSearchResult | PrevSearchResult | EnterCommand

fun CalculateNewIndex :: "NavigationAction \<Rightarrow> go_int \<Rightarrow> go_int \<Rightarrow> go_int \<Rightarrow> go_int" where
  "CalculateNewIndex MoveUp currentIndex listLength pageSize =
     (if 0 <s currentIndex then currentIndex - 1 else currentIndex)"
| "CalculateNewIndex MoveDown currentIndex listLength pageSize =
     (if currentIndex <s listLength - 1 then currentIndex + 1 else currentIndex)"
| "CalculateNewIndex MoveTop currentIndex listLength pageSize = 0"
| "CalculateNewIndex MoveBottom currentIndex listLength pageSize = listLength - 1"
| "CalculateNewIndex MoveHalfPageUp currentIndex listLength pageSize =
     (let newIndex = currentIndex - go_quot pageSize 2
      in if newIndex <s 0 then 0 else newIndex)"
| "CalculateNewIndex MoveHalfPageDown currentIndex listLength pageSize =
     (let newIndex = currentIndex + go_quot pageSize 2
      in if listLength \<le>s newIndex then listLength - 1 else newIndex)"
| "CalculateNewIndex MovePageUp currentIndex listLength pageSize =
     (let newIndex = currentIndex - pageSize
      in if newIndex <s 0 then 0 else newIndex)"
| "CalculateNewIndex MovePageDown currentIndex listLength pageSize =
     (let newIndex = currentIndex + pageSize
      in if listLength \<le>s newIndex then listLength - 1 else newIndex)"
| "CalculateNewIndex _ currentIndex listLength pageSize = currentIndex"

record Command =
  Name :: string
  Args :: "string list"

definition ParseCommand :: "string \<Rightarrow> Command" where
  "ParseCommand commandStr =
    (let parts = Fields commandStr
     in if length parts = 0 then \<lparr> Name = [], Args = [] \<rparr>
        else \<lparr> Name = hd parts, Args = tl parts \<rparr>)"

definition AllCommands :: "string list" where
  "AllCommands =
    [''q'', ''quit'', ''qa'',
     ''r'', ''refresh'',
     ''help'', ''h'',
     ''cf'', ''clearfilter'',
     ''sa'', ''selectall'',
     ''da'', ''deselectall'',
     ''ec2'', ''s3'', ''eks'',
     ''account'', ''acc'',
     ''region'']"

definition GetCommandSuggestions :: "string \<Rightarrow> string list" where
  "GetCommandSuggestions pre =
    (if pre = [] then AllCommands else filter (\<lambda>cmd. HasPrefix cmd pre) AllCommands)"

text \<open>The inner loop of \<open>CompleteCommand\<close>: the common prefix of two strings.\<close>

fun commonPrefix :: "string \<Rightarrow> string \<Rightarrow> string" where
  "commonPrefix (a # as) (b # bs) = (if a = b then a # commonPrefix as bs else [])"
| "commonPrefix _ _ = []"

definition CompleteCommand :: "string \<Rightarrow> string \<times> bool" where
  "CompleteCommand pre =
    (let suggestions = GetCommandSuggestions pre
     in if length suggestions = 1 then (hd suggestions, True)
        else if 1 < length suggestions then
          (let common = foldl commonPrefix (hd suggestions) (tl suggestions)
           in if length pre < length common then (common, False) else (pre, False))
        else (pre, False))"

section \<open>The application model (main.go)\<close>

datatype screen = authMethodScreen | authProfileScreen | ssoConfigScreen | accountScreen
  | regionScreen | ec2Screen | ec2DetailsScreen | s3Screen | s3BrowseScreen
  | s3ObjectDetailsScreen | eksScreen | eksDetailsScreen | helpScreen

record Instance =
  ID :: string
  Name :: string
  State :: string
  InstanceType :: string
  AZ :: string
  PublicIP :: string
  PrivateIP :: string
  Tags :: "(string \<times> string) list"

record Bucket =
  Name :: string
  CreationDate :: string
  Region :: string
  Size :: int
  ObjectCount :: int

record S3Object =
  Key :: string
  Size :: int
  LastModified :: string
  StorageClass :: string
  IsFolder :: bool

record EKSCluster =
  Name :: string
  Version :: string
  Status :: string
  Endpoint :: string
  Region :: string
  CreatedAt :: string
  NodeCount :: int
  Arn :: string

record SSOAccount =
  AccountID :: string
  AccountName :: string
  EmailAddress :: string
  RoleName :: string

record Config =
  Region :: string
  Regions :: "string list"

record AuthConfig =
  Method :: string
  ProfileName :: string
  SSOStartURL :: string
  SSORegion :: string

text \<open>Values behind pointers that the modelled code only tests for nil or sets to nil.\<close>

typedecl InstanceDetails
typedecl S3ObjectDetails
typedecl SSOAuthenticator

text \<open>
  The fields of \<open>model\<close> that the modelled code reads or writes. The functions below work
  on every extension of the record, so the remaining fields are part of the state and are
  carried along unchanged. The field \<open>filter\<close> is named \<open>filter'\<close>.
\<close>

record model =
  currentScreen :: screen
  height :: go_int
  ec2Instances :: "Instance list"
  ec2FilteredInstances :: "Instance list"
  ec2SelectedIndex :: int
  ec2SelectedInstances :: "string \<rightharpoonup> bool"
  ec2InstanceDetails :: "InstanceDetails option"
  s3Buckets :: "Bucket list"
  s3FilteredBuckets :: "Bucket list"
  s3SelectedIndex :: int
  s3CurrentBucket :: string
  s3CurrentPrefix :: string
  s3Objects :: "S3Object list"
  s3FilteredObjects :: "S3Object list"
  s3ObjectSelectedIndex :: int
  s3NextContinuationToken :: "string option"
  s3IsTruncated :: bool
  s3ObjectDetails :: "S3ObjectDetails option"
  s3ConfirmDelete :: bool
  eksClusters :: "EKSCluster list"
  eksFilteredClusters :: "EKSCluster list"
  eksSelectedIndex :: int
  loading :: bool
  config :: "Config option"
  filtering :: bool
  configuringSSO :: bool
  configuringProfile :: bool
  filter' :: string
  confirmAction :: string
  confirmInstanceID :: string
  showingConfirm :: bool
  statusMessage :: string
  vimState :: State
  viewportOffset :: go_int
  commandSuggestions :: "string list"
  ssoAuthenticator :: "SSOAuthenticator option"
  ssoAccounts :: "SSOAccount list"
  ssoFilteredAccounts :: "SSOAccount list"
  ssoSelectedIndex :: int
  regionSelectedIndex :: int
  previousScreen :: screen
  authConfig :: "AuthConfig option"

text \<open>The commands (\<open>tea.Cmd\<close>) that the modelled code returns; nil is \<open>None\<close>.\<close>

datatype Cmd = Quit | loadEC2Instances | loadS3Buckets
  | loadS3Objects string string "string option"
  | loadEKSClusters | authenticateSSO string string | loadSSOAccounts

record bulkActionCompletedMsg =
  action :: string
  successCount :: int
  failureCount :: int

datatype Msg = KeyPress KeyMsg | BulkActionCompleted bulkActionCompletedMsg | OtherMsg

subsection \<open>performBulkAction\<close>

text \<open>
  The four calls of the AWS client that \<open>performBulkAction\<close> makes. Each takes the
  instance id and the state of the remote side and returns whether it failed
  (\<open>err != nil\<close>) and the new remote state.
\<close>

record 'w Client =
  StartInstance :: "string \<Rightarrow> 'w \<Rightarrow> bool \<times> 'w"
  StopInstance :: "string \<Rightarrow> 'w \<Rightarrow> bool \<times> 'w"
  RebootInstance :: "string \<Rightarrow> 'w \<Rightarrow> bool \<times> 'w"
  TerminateInstance :: "string \<Rightarrow> 'w \<Rightarrow> bool \<times> 'w"

fun bulkLoop ::
  "'w Client \<Rightarrow> string \<Rightarrow> string list \<Rightarrow> int \<Rightarrow> int \<Rightarrow> 'w \<Rightarrow> (int \<times> int) \<times> 'w" where
  "bulkLoop client act [] succ fail w = ((succ, fail), w)"
| "bulkLoop client act (instanceID # rest) succ fail w =
     (let (err, w') =
            (if act = ''start'' then StartInstance client instanceID w
             else if act = ''stop'' then StopInstance client instanceID w
             else if act = ''reboot'' then RebootInstance client instanceID w
             else if act = ''terminate'' then TerminateInstance client instanceID w
             else (False, w))
      in if err then bulkLoop client act rest succ (fail + 1) w'
         else bulkLoop client act rest (succ + 1) fail w')"

text \<open>The message that the command returned by \<open>performBulkAction\<close> produces when it runs.\<close>

definition performBulkAction ::
  "'w Client \<Rightarrow> string \<Rightarrow> string list \<Rightarrow> 'w \<Rightarrow> bulkActionCompletedMsg \<times> 'w" where
  "performBulkAction client act instanceIDs w =
    (let ((succ, fail), w') = bulkLoop client act instanceIDs 0 0 w
     in (\<lparr> action = act, successCount = succ, failureCount = fail \<rparr>, w'))"

subsection \<open>Search and selection\<close>

definition clearSearch :: "'a model_scheme \<Rightarrow> 'a model_scheme" where
  "clearSearch m =
     m\<lparr> vimState := (vimState m)\<lparr>LastSearch := [], SearchResults := []\<rparr>,
        ec2FilteredInstances := [], s3FilteredBuckets := [], s3FilteredObjects := [],
        ssoFilteredAccounts := [], eksFilteredClusters := [] \<rparr>"

definition setSelectedIndex :: "'a model_scheme \<Rightarrow> int \<Rightarrow> 'a model_scheme" where
  "setSelectedIndex m index =
    (case currentScreen m of
       regionScreen \<Rightarrow>
         (case config m of
            None \<Rightarrow> m
          | Some c \<Rightarrow>
              if 0 \<le> index \<and> index < int (length (Regions c))
              then m\<lparr>regionSelectedIndex := index\<rparr> else m)
     | accountScreen \<Rightarrow>
         if 0 \<le> index \<and> index < int (length (ssoAccounts m))
         then m\<lparr>ssoSelectedIndex := index\<rparr> else m
     | ec2Screen \<Rightarrow>
         if 0 \<le> index \<and> index < int (length (ec2Instances m))
         then m\<lparr>ec2SelectedIndex := index\<rparr> else m
     | s3Screen \<Rightarrow>
         if 0 \<le> index \<and> index < int (length (s3Buckets m))
         then m\<lparr>s3SelectedIndex := index\<rparr> else m
     | s3BrowseScreen \<Rightarrow>
         if 0 \<le> index \<and> index < int (length (s3Objects m))
         then m\<lparr>s3ObjectSelectedIndex := index\<rparr> else m
     | eksScreen \<Rightarrow>
         if 0 \<le> index \<and> index < int (length (eksClusters m))
         then m\<lparr>eksSelectedIndex := index\<rparr> else m
     | _ \<Rightarrow> m)"

text \<open>
  The loops of \<open>applyVimSearch\<close> that build a filtered list,
  \<open>for _, idx := range SearchResults { filtered = append(filtered, items[idx]) }\<close>;
  \<open>None\<close> when an index expression panics.
\<close>

fun filterByIndices :: "'a list \<Rightarrow> int list \<Rightarrow> 'a list option" where
  "filterByIndices items [] = Some []"
| "filterByIndices items (idx # rest) =
     (case go_index items idx of
        None \<Rightarrow> None
      | Some x \<Rightarrow> map_option ((#) x) (filterByIndices items rest))"

text \<open>The search keys that \<open>applyVimSearch\<close> builds for the items of each list.\<close>

definition accountKey :: "(string \<Rightarrow> string) \<Rightarrow> SSOAccount \<Rightarrow> string" where
  "accountKey unicodeLower acc =
     ToLower unicodeLower (AccountID acc @ '' '' @ AccountName acc @ '' '' @ RoleName acc @ '' '' @ EmailAddress acc)"

definition instanceKey :: "(string \<Rightarrow> string) \<Rightarrow> Instance \<Rightarrow> string" where
  "instanceKey unicodeLower inst =
     ToLower unicodeLower (Instance.ID inst @ '' '' @ Instance.Name inst @ '' '' @ Instance.State inst @ '' ''
              @ InstanceType inst @ '' '' @ PublicIP inst @ '' '' @ PrivateIP inst)"

definition bucketKey :: "(string \<Rightarrow> string) \<Rightarrow> Bucket \<Rightarrow> string" where
  "bucketKey unicodeLower bucket = ToLower unicodeLower (Bucket.Name bucket @ '' '' @ Bucket.Region bucket)"

definition objectKey :: "(string \<Rightarrow> string) \<Rightarrow> S3Object \<Rightarrow> string" where
  "objectKey unicodeLower obj = ToLower unicodeLower (Key obj)"

definition clusterKey :: "(string \<Rightarrow> string) \<Rightarrow> EKSCluster \<Rightarrow> string" where
  "clusterKey unicodeLower cluster =
     ToLower unicodeLower (EKSCluster.Name cluster @ '' '' @ Version cluster @ '' '' @ Status cluster @ '' ''
              @ EKSCluster.Region cluster)"

definition applyVimSearch ::
  "(string \<Rightarrow> string) \<Rightarrow> 'a model_scheme \<Rightarrow> 'a model_scheme option" where
  "applyVimSearch unicodeLower m =
    (case (case currentScreen m of
             accountScreen \<Rightarrow> Some (map (accountKey unicodeLower) (ssoAccounts m))
           | ec2Screen \<Rightarrow> Some (map (instanceKey unicodeLower) (ec2Instances m))
           | s3Screen \<Rightarrow> Some (map (bucketKey unicodeLower) (s3Buckets m))
           | s3BrowseScreen \<Rightarrow> Some (map (objectKey unicodeLower) (s3Objects m))
           | eksScreen \<Rightarrow> Some (map (clusterKey unicodeLower) (eksClusters m))
           | _ \<Rightarrow> None) of
       None \<Rightarrow> Some m
     | Some searchItems \<Rightarrow>
        (let m = m\<lparr>vimState := SearchItems unicodeLower (vimState m) searchItems\<rparr>;
             results = SearchResults (vimState m)
         in if 0 < length results then
              do {
                m \<leftarrow> (case currentScreen m of
                        accountScreen \<Rightarrow>
                          map_option (\<lambda>xs. m\<lparr>ssoFilteredAccounts := xs\<rparr>)
                            (filterByIndices (ssoAccounts m) results)
                      | ec2Screen \<Rightarrow>
                          map_option (\<lambda>xs. m\<lparr>ec2FilteredInstances := xs\<rparr>)
                            (filterByIndices (ec2Instances m) results)
                      | s3Screen \<Rightarrow>
                          map_option (\<lambda>xs. m\<lparr>s3FilteredBuckets := xs\<rparr>)
                            (filterByIndices (s3Buckets m) results)
                      | s3BrowseScreen \<Rightarrow>
                          map_option (\<lambda>xs. m\<lparr>s3FilteredObjects := xs\<rparr>)
                            (filterByIndices (s3Objects m) results)
                      | eksScreen \<Rightarrow>
                          map_option (\<lambda>xs. m\<lparr>eksFilteredClusters := xs\<rparr>)
                            (filterByIndices (eksClusters m) results)
                      | _ \<Rightarrow> Some m);
                Some ((setSelectedIndex m 0)
                        \<lparr>statusMessage := ''Showing '' @ itoa (int (length results))
                                           @ '' matching results (ESC or :cf to clear)''\<rparr>)
              }
            else
              (let m = m\<lparr>statusMessage := ''No matches found''\<rparr>
               in Some (case currentScreen m of
                          accountScreen \<Rightarrow> m\<lparr>ssoFilteredAccounts := []\<rparr>
                        | ec2Screen \<Rightarrow> m\<lparr>ec2FilteredInstances := []\<rparr>
                        | s3Screen \<Rightarrow> m\<lparr>s3FilteredBuckets := []\<rparr>
                        | s3BrowseScreen \<Rightarrow> m\<lparr>s3FilteredObjects := []\<rparr>
                        | eksScreen \<Rightarrow> m\<lparr>eksFilteredClusters := []\<rparr>
                        | _ \<Rightarrow> m))))"

subsection \<open>executeVimCommand\<close>

text \<open>
  The loop of the \<open>region\<close> command: the index of the first configured region equal to
  the current one, 0 when there is none.
\<close>

fun findRegion :: "string \<Rightarrow> int \<Rightarrow> string list \<Rightarrow> int" where
  "findRegion r i [] = 0"
| "findRegion r i (x # xs) = (if x = r then i else findRegion r (i + 1) xs)"

definition executeVimCommand :: "'a model_scheme \<Rightarrow> string \<Rightarrow> 'a model_scheme \<times> Cmd option" where
  "executeVimCommand m commandStr =
    (let cmd = ParseCommand commandStr; name = Command.Name cmd in
     if name = ''q'' \<or> name = ''quit'' then
       (if currentScreen m = ec2DetailsScreen then
          (m\<lparr>currentScreen := ec2Screen, ec2InstanceDetails := None\<rparr>, None)
        else if currentScreen m = s3BrowseScreen then
          (m\<lparr>currentScreen := s3Screen, s3Objects := [], s3CurrentBucket := [],
             s3CurrentPrefix := []\<rparr>, None)
        else if currentScreen m = s3ObjectDetailsScreen then
          (m\<lparr>currentScreen := s3BrowseScreen, s3ObjectDetails := None\<rparr>, None)
        else (m, Some Quit))
     else if name = ''r'' \<or> name = ''refresh'' then
       (let m = m\<lparr>loading := True\<rparr> in
        if currentScreen m = ec2Screen then (m, Some loadEC2Instances)
        else if currentScreen m = s3Screen then (m, Some loadS3Buckets)
        else if currentScreen m = s3BrowseScreen then
          (m, Some (loadS3Objects (s3CurrentBucket m) (s3CurrentPrefix m) None))
        else (m, None))
     else if name = ''sa'' then
       (if currentScreen m = ec2Screen then
          (m\<lparr>ec2SelectedInstances :=
                foldl (\<lambda>sel inst. sel(Instance.ID inst \<mapsto> True)) (ec2SelectedInstances m)
                  (ec2Instances m),
             statusMessage := ''Selected all '' @ itoa (int (length (ec2Instances m)))
                              @ '' instances''\<rparr>, None)
        else (m, None))
     else if name = ''da'' then
       (if currentScreen m = ec2Screen then
          (m\<lparr>ec2SelectedInstances := Map.empty, statusMessage := ''Cleared all selections''\<rparr>, None)
        else (m, None))
     else if name = ''cf'' \<or> name = ''clearfilter'' then
       (m\<lparr>filter' := [],
          vimState := (vimState m)\<lparr>LastSearch := [], SearchResults := []\<rparr>,
          ec2FilteredInstances := [], s3FilteredBuckets := [], s3FilteredObjects := [],
          statusMessage := ''Filter cleared''\<rparr>, None)
     else if name = ''help'' \<or> name = ''h'' \<or> name = ''?'' then
       (m\<lparr>previousScreen := currentScreen m, currentScreen := helpScreen\<rparr>, None)
     else if name = ''ec2'' then
       (let m = clearSearch m; m = m\<lparr>currentScreen := ec2Screen, viewportOffset := 0\<rparr> in
        if length (ec2Instances m) = 0 then (m\<lparr>loading := True\<rparr>, Some loadEC2Instances)
        else (m\<lparr>statusMessage := ''Switched to EC2''\<rparr>, None))
     else if name = ''s3'' then
       (let m = clearSearch m; m = m\<lparr>currentScreen := s3Screen, viewportOffset := 0\<rparr> in
        if length (s3Buckets m) = 0 then (m\<lparr>loading := True\<rparr>, Some loadS3Buckets)
        else (m\<lparr>statusMessage := ''Switched to S3''\<rparr>, None))
     else if name = ''eks'' then
       (let m = clearSearch m; m = m\<lparr>currentScreen := eksScreen, viewportOffset := 0\<rparr> in
        if length (eksClusters m) = 0 then (m\<lparr>loading := True\<rparr>, Some loadEKSClusters)
        else (m\<lparr>statusMessage := ''Switched to EKS''\<rparr>, None))
     else if name = ''account'' \<or> name = ''acc'' then
       (case authConfig m of
          None \<Rightarrow>
            (m\<lparr>statusMessage := ''Account switching only available with SSO authentication''\<rparr>,
             None)
        | Some ac \<Rightarrow>
            if Method ac \<noteq> ''sso'' then
              (m\<lparr>statusMessage := ''Account switching only available with SSO authentication''\<rparr>,
               None)
            else (case ssoAuthenticator m of
               None \<Rightarrow>
                 (m\<lparr>loading := True,
                    statusMessage := ''Starting SSO authentication - opening browser...''\<rparr>,
                  Some (authenticateSSO (SSOStartURL ac) (SSORegion ac)))
             | Some _ \<Rightarrow>
                 (let m = m\<lparr>currentScreen := accountScreen, viewportOffset := 0\<rparr> in
                  if length (ssoAccounts m) = 0 then (m\<lparr>loading := True\<rparr>, Some loadSSOAccounts)
                  else (m\<lparr>statusMessage := ''Account selection''\<rparr>, None))))
     else if name = ''region'' then
       (case config m of
          None \<Rightarrow> (m\<lparr>statusMessage := ''No regions configured''\<rparr>, None)
        | Some c \<Rightarrow>
            if length (Regions c) = 0 then (m\<lparr>statusMessage := ''No regions configured''\<rparr>, None)
            else
              (m\<lparr>regionSelectedIndex := findRegion (Config.Region c) 0 (Regions c),
                 previousScreen := currentScreen m, currentScreen := regionScreen,
                 viewportOffset := 0, statusMessage := ''Select a region''\<rparr>, None))
     else (m\<lparr>statusMessage := ''Unknown command: '' @ name\<rparr>, None))"

subsection \<open>Update\<close>

text \<open>
  The branch of \<open>Update\<close> for a key press while the mode is Search or Command
  (the block headed "Handle VIM modes"). \<open>None\<close> is a panic.
\<close>

definition updateVimModes ::
  "(string \<Rightarrow> string) \<Rightarrow> 'a model_scheme \<Rightarrow> KeyMsg \<Rightarrow>
   ('a model_scheme \<times> Cmd option) option" where
  "updateVimModes unicodeLower m msg =
    (if Mode (vimState m) = CommandMode \<and> msg = ''tab'' then
       (let (completed, isComplete) = CompleteCommand (CommandBuffer (vimState m));
            m = m\<lparr>vimState := (vimState m)\<lparr>CommandBuffer := completed\<rparr>\<rparr>;
            m = (if \<not> isComplete then m\<lparr>commandSuggestions := GetCommandSuggestions completed\<rparr>
                 else m\<lparr>commandSuggestions := []\<rparr>)
        in Some (m, None))
     else
       (let (handled, vs) = HandleKey (vimState m) msg; m = m\<lparr>vimState := vs\<rparr> in
        if handled then
          do {
            m \<leftarrow> Some (if Mode (vimState m) = CommandMode
                       then m\<lparr>commandSuggestions := GetCommandSuggestions (CommandBuffer (vimState m))\<rparr>
                       else m);
            m \<leftarrow> (if Mode (vimState m) = SearchMode then
                    (if SearchQuery (vimState m) \<noteq> [] then
                       applyVimSearch unicodeLower (m\<lparr>vimState := (vimState m)\<lparr>LastSearch := SearchQuery (vimState m)\<rparr>\<rparr>)
                     else
                       Some (m\<lparr>vimState := (vimState m)\<lparr>LastSearch := [], SearchResults := []\<rparr>,
                               ec2FilteredInstances := [], s3FilteredBuckets := [],
                               s3FilteredObjects := []\<rparr>))
                  else Some m);
            m \<leftarrow> (if Mode (vimState m) = NormalMode \<and> LastSearch (vimState m) \<noteq> []
                  then applyVimSearch unicodeLower m else Some m);
            (if Mode (vimState m) = NormalMode \<and> CommandBuffer (vimState m) \<noteq> [] then
               (let (m, cmd) = executeVimCommand m (CommandBuffer (vimState m));
                    m = m\<lparr>vimState := (vimState m)\<lparr>CommandBuffer := []\<rparr>, commandSuggestions := []\<rparr>
                in Some (m, cmd))
             else Some (m, None))
          }
        else Some (m, None)))"

text \<open>
  \<open>Update\<close> on key presses and on the completion message of a bulk action. The order of
  the tests is the source's. The branches that are not modelled (the set-up screens, the
  text inputs, the confirmation of an action, the other keys and messages) are the
  parameter \<open>other\<close>: what is proved about \<open>Update\<close> holds whatever they do.
  \<open>None\<close> is a panic.
\<close>

definition Update ::
  "(string \<Rightarrow> string) \<Rightarrow> ('a model_scheme \<Rightarrow> Msg \<Rightarrow> ('a model_scheme \<times> Cmd option) option) \<Rightarrow>
   'a model_scheme \<Rightarrow> Msg \<Rightarrow> ('a model_scheme \<times> Cmd option) option" where
  "Update unicodeLower other m msg =
    (if currentScreen m = authMethodScreen then
       (case msg of KeyPress k \<Rightarrow> other m msg | _ \<Rightarrow> Some (m, None))
     else if configuringProfile m \<and> currentScreen m = authProfileScreen then other m msg
     else if configuringSSO m \<and> currentScreen m = ssoConfigScreen then other m msg
     else if s3ConfirmDelete m then other m msg
     else if showingConfirm m then
       (case msg of
          KeyPress k \<Rightarrow>
            if k = ''y'' \<or> k = ''Y'' then other m msg
            else if k = ''n'' \<or> k = ''N'' \<or> k = ''esc'' then
              Some (m\<lparr>showingConfirm := False, confirmAction := [], confirmInstanceID := []\<rparr>, None)
            else Some (m, None)
        | _ \<Rightarrow> Some (m, None))
     else if Mode (vimState m) = SearchMode \<or> Mode (vimState m) = CommandMode then
       (case msg of KeyPress k \<Rightarrow> updateVimModes unicodeLower m k | _ \<Rightarrow> Some (m, None))
     else if filtering m then other m msg
     else
       (case msg of
          BulkActionCompleted b \<Rightarrow>
            Some (m\<lparr>loading := False, showingConfirm := False,
                    statusMessage :=
                      (if 0 < failureCount b then
                         ''Bulk '' @ action b @ '': '' @ itoa (successCount b) @ '' succeeded, ''
                         @ itoa (failureCount b) @ '' failed''
                       else
                         ''Bulk '' @ action b @ '': '' @ itoa (successCount b)
                         @ '' instances succeeded''),
                    ec2SelectedInstances := Map.empty\<rparr>, Some loadEC2Instances)
        | KeyPress k \<Rightarrow>
            if k = ''/'' then Some (m\<lparr>vimState := EnterSearchMode (vimState m)\<rparr>, None)
            else if k = ''n'' then
              (if LastSearch (vimState m) \<noteq> [] then
                 (case NextMatch (vimState m) of
                    None \<Rightarrow> None
                  | Some (idx, vs) \<Rightarrow>
                      (let m = m\<lparr>vimState := vs\<rparr>
                       in Some (if 0 \<le> idx then setSelectedIndex m idx else m, None)))
               else if currentScreen m = s3BrowseScreen \<and> s3IsTruncated m
                       \<and> s3NextContinuationToken m \<noteq> None then
                 Some (m\<lparr>loading := True\<rparr>,
                       Some (loadS3Objects (s3CurrentBucket m) (s3CurrentPrefix m)
                               (s3NextContinuationToken m)))
               else Some (m, None))
            else if k = ''N'' then
              (if LastSearch (vimState m) \<noteq> [] then
                 (case PrevMatch (vimState m) of
                    None \<Rightarrow> None
                  | Some (idx, vs) \<Rightarrow>
                      (let m = m\<lparr>vimState := vs\<rparr>
                       in Some (if 0 \<le> idx then setSelectedIndex m idx else m, None)))
               else Some (m, None))
            else if k = '':'' then Some (m\<lparr>vimState := EnterCommandMode (vimState m)\<rparr>, None)
            else if k = ''tab'' then
              (let m = clearSearch m in
               if currentScreen m = ec2Screen then Some (m\<lparr>currentScreen := s3Screen\<rparr>, None)
               else if currentScreen m = s3Screen then
                 (let m = m\<lparr>currentScreen := eksScreen\<rparr> in
                  if length (eksClusters m) = 0 then Some (m\<lparr>loading := True\<rparr>, Some loadEKSClusters)
                  else Some (m, None))
               else if currentScreen m = eksScreen then Some (m\<lparr>currentScreen := ec2Screen\<rparr>, None)
               else Some (m, None))
            else if k = ''x'' then
              (if currentScreen m = ec2Screen then
                 Some (m\<lparr>ec2SelectedInstances := Map.empty,
                         statusMessage := ''Cleared all selections''\<rparr>, None)
               else Some (m, None))
            else other m msg
        | OtherMsg \<Rightarrow> other m msg))"

subsection \<open>ensureVisible\<close>

definition ensureVisible :: "'a model_scheme \<Rightarrow> go_int \<Rightarrow> go_int \<Rightarrow> 'a model_scheme" where
  "ensureVisible m selectedIndex listLength =
    (if listLength = 0 then m\<lparr>viewportOffset := 0\<rparr>
     else
       (let availableHeight = height m - 22;
            availableHeight = (if availableHeight <s 5 then 5 else availableHeight);
            m = (if selectedIndex <s viewportOffset m then m\<lparr>viewportOffset := selectedIndex\<rparr>
                 else if viewportOffset m + availableHeight \<le>s selectedIndex
                 then m\<lparr>viewportOffset := selectedIndex - availableHeight + 1\<rparr>
                 else m);
            maxOffset = listLength - availableHeight;
            maxOffset = (if maxOffset <s 0 then 0 else maxOffset);
            m = (if maxOffset <s viewportOffset m then m\<lparr>viewportOffset := maxOffset\<rparr> else m);
            m = (if viewportOffset m <s 0 then m\<lparr>viewportOffset := 0\<rparr> else m)
        in m))"

section \<open>Definitions used in the statements\<close>

text \<open>
  The search of the specification: the indices, in the order of the list, of the items
  whose case-folded text contains the case-folded query.
\<close>

definition search_spec :: "(string \<Rightarrow> string) \<Rightarrow> string \<Rightarrow> string list \<Rightarrow> nat list" where
  "search_spec unicodeLower query items =
     filter (\<lambda>k. Contains (ToLower unicodeLower (items ! k)) (ToLower unicodeLower query)) [0..<length items]"

text \<open>
  Sequences of operations on a vim state: the exported methods, and the writes to the
  exported fields that main.go makes directly. \<open>None\<close> when an operation panics.
\<close>

datatype VimOp = OpHandleKey KeyMsg | OpEnterSearchMode | OpEnterCommandMode
  | OpSearchItems "string list" | OpNextMatch | OpPrevMatch | OpGetCurrentMatch
  | OpClearResults | OpSetLastSearch string | OpSetCommandBuffer string

fun applyOp :: "(string \<Rightarrow> string) \<Rightarrow> State \<Rightarrow> VimOp \<Rightarrow> State option" where
  "applyOp unicodeLower s (OpHandleKey msg) = Some (snd (HandleKey s msg))"
| "applyOp unicodeLower s OpEnterSearchMode = Some (EnterSearchMode s)"
| "applyOp unicodeLower s OpEnterCommandMode = Some (EnterCommandMode s)"
| "applyOp unicodeLower s (OpSearchItems items) = Some (SearchItems unicodeLower s items)"
| "applyOp unicodeLower s OpNextMatch = map_option snd (NextMatch s)"
| "applyOp unicodeLower s OpPrevMatch = map_option snd (PrevMatch s)"
| "applyOp unicodeLower s OpGetCurrentMatch = map_option (\<lambda>_. s) (GetCurrentMatch s)"
| "applyOp unicodeLower s OpClearResults = Some (s\<lparr>SearchResults := []\<rparr>)"
| "applyOp unicodeLower s (OpSetLastSearch q) = Some (s\<lparr>LastSearch := q\<rparr>)"
| "applyOp unicodeLower s (OpSetCommandBuffer b) = Some (s\<lparr>CommandBuffer := b\<rparr>)"

fun runOps :: "(string \<Rightarrow> string) \<Rightarrow> State \<Rightarrow> VimOp list \<Rightarrow> State option" where
  "runOps unicodeLower s [] = Some s"
| "runOps unicodeLower s (op # ops) = (case applyOp unicodeLower s op of None \<Rightarrow> None | Some s' \<Rightarrow> runOps unicodeLower s' ops)"

text \<open>The invariant of the vim state behind C10.\<close>

definition matchInBounds :: "State \<Rightarrow> bool" where
  "matchInBounds s \<longleftrightarrow>
     (SearchResults s = []
      \<or> 0 \<le> CurrentMatch s \<and> CurrentMatch s < int (length (SearchResults s)))
     \<and> list_all (\<lambda>i. 0 \<le> i) (SearchResults s)"

text \<open>Keys typed while the vim state stays on its own (no \<open>Update\<close> around it).\<close>

definition typeKeys :: "State \<Rightarrow> KeyMsg list \<Rightarrow> State" where
  "typeKeys s keys = foldl (\<lambda>s k. snd (HandleKey s k)) s keys"

text \<open>A sequence of key presses fed to \<open>Update\<close>.\<close>

fun runKeys ::
  "(string \<Rightarrow> string) \<Rightarrow> ('a model_scheme \<Rightarrow> Msg \<Rightarrow> ('a model_scheme \<times> Cmd option) option) \<Rightarrow>
   'a model_scheme \<Rightarrow> KeyMsg list \<Rightarrow> 'a model_scheme option" where
  "runKeys unicodeLower other m [] = Some m"
| "runKeys unicodeLower other m (k # keys) =
     (case Update unicodeLower other m (KeyPress k) of
        None \<Rightarrow> None
      | Some (m', cmd) \<Rightarrow> runKeys unicodeLower other m' keys)"

text \<open>
  None of the set-up screens and dialogs that \<open>Update\<close> tests first stands before the
  vim modes. (After the vim modes, only the legacy filter \<open>filtering\<close> stands before the
  message switch.)
\<close>

definition noDialog :: "'a model_scheme \<Rightarrow> bool" where
  "noDialog m \<longleftrightarrow>
     currentScreen m \<noteq> authMethodScreen
     \<and> \<not> (configuringProfile m \<and> currentScreen m = authProfileScreen)
     \<and> \<not> (configuringSSO m \<and> currentScreen m = ssoConfigScreen)
     \<and> \<not> s3ConfirmDelete m \<and> \<not> showingConfirm m"

text \<open>
  The parts of \<open>ensureVisible\<close>: the height available for the rows (its local variable
  \<open>availableHeight\<close>, which \<open>getVisibleRange\<close> computes in the same way), the scroll that
  brings the selected index into the window, the largest offset, and the clamp.
\<close>

definition availableHeight :: "'a model_scheme \<Rightarrow> go_int" where
  "availableHeight m =
     (let availableHeight = height m - 22
      in if availableHeight <s 5 then 5 else availableHeight)"

definition scrollTo :: "go_int \<Rightarrow> go_int \<Rightarrow> go_int \<Rightarrow> go_int" where
  "scrollTo a off sel =
     (if sel <s off then sel else if off + a \<le>s sel then sel - a + 1 else off)"

definition maxOffset :: "go_int \<Rightarrow> go_int \<Rightarrow> go_int" where
  "maxOffset len a = (let maxOffset = len - a in if maxOffset <s 0 then 0 else maxOffset)"

definition clampOffset :: "go_int \<Rightarrow> go_int \<Rightarrow> go_int" where
  "clampOffset mo x = (let y = (if mo <s x then mo else x) in if y <s 0 then 0 else y)"

text \<open>The verbs that \<open>executeVimCommand\<close> has a case for.\<close>

definition recognizedVerbs :: "string list" where
  "recognizedVerbs =
    [''q'', ''quit'', ''r'', ''refresh'', ''sa'', ''da'', ''cf'', ''clearfilter'',
     ''help'', ''h'', ''?'', ''ec2'', ''s3'', ''eks'', ''account'', ''acc'', ''region'']"

text \<open>
  The model of the scenarios: the EC2 list screen showing four instances with the ids
  ec2-1, ec2-2, s3-x and ec2-3, nothing selected, no search.
\<close>

definition exampleItems :: "string list" where
  "exampleItems = [''ec2-1'', ''ec2-2'', ''s3-x'', ''ec2-3'']"

definition exampleInstance :: "string \<Rightarrow> Instance" where
  "exampleInstance i =
     \<lparr> ID = i, Name = [], State = [], InstanceType = [], AZ = [], PublicIP = [],
       PrivateIP = [], Tags = [] \<rparr>"

definition exampleModel :: model where
  "exampleModel =
     \<lparr> currentScreen = ec2Screen, height = 40,
       ec2Instances = map exampleInstance exampleItems,
       ec2FilteredInstances = [], ec2SelectedIndex = 0, ec2SelectedInstances = Map.empty,
       ec2InstanceDetails = None,
       s3Buckets = [], s3FilteredBuckets = [], s3SelectedIndex = 0, s3CurrentBucket = [],
       s3CurrentPrefix = [], s3Objects = [], s3FilteredObjects = [],
       s3ObjectSelectedIndex = 0, s3NextContinuationToken = None, s3IsTruncated = False,
       s3ObjectDetails = None, s3ConfirmDelete = False,
       eksClusters = [], eksFilteredClusters = [], eksSelectedIndex = 0,
       loading = False, config = None, filtering = False, configuringSSO = False,
       configuringProfile = False, filter' = [], confirmAction = [], confirmInstanceID = [],
       showingConfirm = False, statusMessage = [], vimState = NewState, viewportOffset = 0,
       commandSuggestions = [], ssoAuthenticator = None, ssoAccounts = [],
       ssoFilteredAccounts = [], ssoSelectedIndex = 0, regionSelectedIndex = 0,
       previousScreen = ec2Screen, authConfig = None \<rparr>"

text \<open>The same screen in Search mode, after \<open>/s3\<close> has been typed.\<close>

definition exampleSearching :: model where
  "exampleSearching =
     exampleModel
       \<lparr> ec2FilteredInstances := [exampleInstance ''s3-x''],
         statusMessage := ''Showing 1 matching results (ESC or :cf to clear)'',
         vimState := NewState\<lparr>Mode := SearchMode, SearchQuery := ''s3'',
                             SearchResults := [2], LastSearch := ''s3''\<rparr> \<rparr>"

text \<open>The first screen with the instance ec2-1 marked for a bulk action.\<close>

definition exampleSelected :: model where
  "exampleSelected = exampleModel\<lparr>ec2SelectedInstances := [''ec2-1'' \<mapsto> True]\<rparr>"

text \<open>A client whose calls fail for the instance id \<open>i-gone\<close>; it has no state.\<close>

definition exampleClient :: "unit Client" where
  "exampleClient =
     \<lparr> StartInstance = (\<lambda>i w. (i = ''i-gone'', w)), StopInstance = (\<lambda>i w. (i = ''i-gone'', w)),
       RebootInstance = (\<lambda>i w. (i = ''i-gone'', w)),
       TerminateInstance = (\<lambda>i w. (i = ''i-gone'', w)) \<rparr>"

text \<open>In the scenarios the branches of \<open>Update\<close> that are not modelled are never taken.\<close>

definition noOther :: "model \<Rightarrow> Msg \<Rightarrow> (model \<times> Cmd option) option" where
  "noOther m msg = None"

text \<open>
  The scenarios hold ASCII text only, on which \<open>ToLower\<close> does not call
  \<open>unicodeLower\<close>; there the parameter is the identity.
\<close>

definition noUnicode :: "string \<Rightarrow> string" where
  "noUnicode s = s"

section \<open>Properties\<close>

subsection \<open>The model on the cases of the repository's tests\<close>

text \<open>The rows of \<open>TestCalculateNewIndex\<close>.\<close>

lemma test_CalculateNewIndex:
  "CalculateNewIndex MoveUp 5 10 10 = 4"
  "CalculateNewIndex MoveUp 0 10 10 = 0"
  "CalculateNewIndex MoveDown 5 10 10 = 6"
  "CalculateNewIndex MoveDown 9 10 10 = 9"
  "CalculateNewIndex MoveTop 5 10 10 = 0"
  "CalculateNewIndex MoveBottom 5 10 10 = 9"
  "CalculateNewIndex MoveHalfPageDown 5 100 20 = 15"
  "CalculateNewIndex MoveHalfPageUp 15 100 20 = 5"
  "CalculateNewIndex MovePageDown 5 100 20 = 25"
  "CalculateNewIndex MovePageUp 25 100 20 = 5"
  "CalculateNewIndex MoveHalfPageDown 95 100 20 = 99"
  "CalculateNewIndex MoveHalfPageUp 5 100 20 = 0"
  by (simp_all add: Let_def word_sless_alt word_sle_eq go_quot_def signed_divide_int_def)

text \<open>\<open>TestSearchItems\<close>, \<open>TestNextPrevMatch\<close>, \<open>TestParseCommand\<close> and \<open>TestModeTransitions\<close>.\<close>

lemma test_SearchItems:
  "SearchResults (SearchItems noUnicode (NewState\<lparr>SearchQuery := ''ec2''\<rparr>)
     [''ec2-instance-1'', ''ec2-instance-2'', ''s3-bucket-test'', ''ec2-instance-3'']) = [0, 1, 3]"
  by code_simp

lemma test_NextPrevMatch:
  "NextMatch (NewState\<lparr>SearchResults := [0, 3, 5, 7], CurrentMatch := 0\<rparr>)
     = Some (3, NewState\<lparr>SearchResults := [0, 3, 5, 7], CurrentMatch := 1\<rparr>)"
  "NextMatch (NewState\<lparr>SearchResults := [0, 3, 5, 7], CurrentMatch := 1\<rparr>)
     = Some (5, NewState\<lparr>SearchResults := [0, 3, 5, 7], CurrentMatch := 2\<rparr>)"
  "NextMatch (NewState\<lparr>SearchResults := [0, 3, 5, 7], CurrentMatch := 3\<rparr>)
     = Some (0, NewState\<lparr>SearchResults := [0, 3, 5, 7], CurrentMatch := 0\<rparr>)"
  "PrevMatch (NewState\<lparr>SearchResults := [0, 3, 5, 7], CurrentMatch := 0\<rparr>)
     = Some (7, NewState\<lparr>SearchResults := [0, 3, 5, 7], CurrentMatch := 3\<rparr>)"
  "PrevMatch (NewState\<lparr>SearchResults := [0, 3, 5, 7], CurrentMatch := 3\<rparr>)
     = Some (5, NewState\<lparr>SearchResults := [0, 3, 5, 7], CurrentMatch := 2\<rparr>)"
  by (simp_all add: NextMatch_def PrevMatch_def NewState_def go_index_def Let_def
      signed_modulo_int_def)

lemma test_ParseCommand:
  "ParseCommand ''q'' = \<lparr> Command.Name = ''q'', Args = [] \<rparr>"
  "ParseCommand ''refresh'' = \<lparr> Command.Name = ''refresh'', Args = [] \<rparr>"
  "ParseCommand ''echo hello world'' = \<lparr> Command.Name = ''echo'', Args = [''hello'', ''world''] \<rparr>"
  "ParseCommand [] = \<lparr> Command.Name = [], Args = [] \<rparr>"
  by code_simp+

lemma test_ModeTransitions:
  "Mode NewState = NormalMode"
  "Mode (EnterSearchMode NewState) = SearchMode"
  "Mode (snd (HandleKey (EnterSearchMode NewState) ''esc'')) = NormalMode"
  "Mode (EnterCommandMode NewState) = CommandMode"
  "Mode (snd (HandleKey (EnterCommandMode NewState) ''esc'')) = NormalMode"
  by code_simp+

text \<open>The example state in Search mode is the one reached by typing \<open>/s3\<close>.\<close>

lemma exampleSearching_reached:
  "map_option
     (\<lambda>m. (Mode (vimState m), SearchQuery (vimState m), SearchResults (vimState m),
           CurrentMatch (vimState m), CommandBuffer (vimState m), LastSearch (vimState m),
           currentScreen m, ec2Instances m, ec2FilteredInstances m, ec2SelectedIndex m,
           statusMessage m))
     (runKeys noUnicode noOther exampleModel [''/'', ''s'', ''3''])
   = Some (Mode (vimState exampleSearching), SearchQuery (vimState exampleSearching),
           SearchResults (vimState exampleSearching), CurrentMatch (vimState exampleSearching),
           CommandBuffer (vimState exampleSearching), LastSearch (vimState exampleSearching),
           currentScreen exampleSearching, ec2Instances exampleSearching,
           ec2FilteredInstances exampleSearching, ec2SelectedIndex exampleSearching,
           statusMessage exampleSearching)"
  by code_simp

subsection \<open>Signed 64-bit arithmetic without overflow\<close>

lemma sint_add_no_wrap:
  fixes a b :: go_int
  assumes "- (2 ^ 63) \<le> sint a + sint b" and "sint a + sint b < 2 ^ 63"
  shows "sint (a + b) = sint a + sint b"
  using assms by (simp add: sint_word_ariths signed_take_bit_int_eq_self)

lemma sint_sub_no_wrap:
  fixes a b :: go_int
  assumes "- (2 ^ 63) \<le> sint a - sint b" and "sint a - sint b < 2 ^ 63"
  shows "sint (a - b) = sint a - sint b"
  using assms by (simp add: sint_word_ariths signed_take_bit_int_eq_self)

lemma sint_bounds64:
  fixes a :: go_int
  shows "- (2 ^ 63) \<le> sint a" and "sint a < 2 ^ 63"
  using sint_ge [of a] sint_lt [of a] by simp_all

lemma sint_go_quot_2:
  assumes "0 \<le> sint p"
  shows "sint (go_quot p 2) = sint p div 2"
proof -
  have "sint p < 2 ^ 63" by (rule sint_bounds64)
  with assms have "0 \<le> sint p div 2" and "sint p div 2 < 2 ^ 63" by auto
  moreover have "sint p sdiv 2 = sint p div 2"
    using assms by (simp add: signed_divide_int_def sgn_if)
  ultimately show ?thesis
    by (simp add: go_quot_def sint_sbintrunc' signed_take_bit_int_eq_self)
qed

lemma sint_eq_iff64: "(x :: go_int) = y \<longleftrightarrow> sint x = sint y"
  by (rule word_eq_iff_signed)

lemma mod_wrap_up:
  fixes x m :: int
  assumes "- m \<le> x" and "x < 0"
  shows "x mod m = x + m"
proof -
  have "x mod m = (x + m) mod m" by simp
  also have "\<dots> = x + m" using assms by (intro mod_pos_pos_trivial) simp_all
  finally show ?thesis .
qed

lemma mod_wrap_down:
  fixes x m :: int
  assumes "m \<le> x" and "x < 2 * m"
  shows "x mod m = x - m"
proof -
  have "x mod m = (x - m) mod m" by simp
  also have "\<dots> = x - m" using assms by (intro mod_pos_pos_trivial) simp_all
  finally show ?thesis .
qed

lemma stb_cases:
  fixes k :: int
  assumes "- (2 ^ 64) \<le> k" and "k < 2 ^ 64"
  shows "signed_take_bit (63::nat) k =
     (if k < - (2 ^ 63) then k + 2 ^ 64 else if 2 ^ 63 \<le> k then k - 2 ^ 64 else k)"
proof -
  have m1: "(k + 2 ^ 63) mod 2 ^ 64 = k + 2 ^ 63 + 2 ^ 64" if "k < - (2 ^ 63)"
    using that assms by (intro mod_wrap_up) simp_all
  have m2: "(k + 2 ^ 63) mod 2 ^ 64 = k + 2 ^ 63 - 2 ^ 64" if "2 ^ 63 \<le> k"
    using that assms by (intro mod_wrap_down) simp_all
  have m3: "(k + 2 ^ 63) mod 2 ^ 64 = k + 2 ^ 63" if "- (2 ^ 63) \<le> k" "k < 2 ^ 63"
    using that by (intro mod_pos_pos_trivial) simp_all
  show ?thesis
    using m1 m2 m3
    by (simp add: signed_take_bit_eq_take_bit_shift take_bit_eq_mod)
qed

lemma sint_add_cases:
  fixes a b :: go_int
  shows "sint (a + b) =
     (if sint a + sint b < - (2 ^ 63) then sint a + sint b + 2 ^ 64
      else if 2 ^ 63 \<le> sint a + sint b then sint a + sint b - 2 ^ 64
      else sint a + sint b)"
proof -
  have b: "- (2 ^ 63) \<le> sint a" "sint a < 2 ^ 63" "- (2 ^ 63) \<le> sint b" "sint b < 2 ^ 63"
    by (rule sint_bounds64)+
  have "sint (a + b) = signed_take_bit (63::nat) (sint a + sint b)"
    by (simp add: sint_word_ariths)
  also have "\<dots> = (if sint a + sint b < - (2 ^ 63) then sint a + sint b + 2 ^ 64
      else if 2 ^ 63 \<le> sint a + sint b then sint a + sint b - 2 ^ 64
      else sint a + sint b)"
    using b by (intro stb_cases) simp_all
  finally show ?thesis .
qed

lemma sint_sub_cases:
  fixes a b :: go_int
  shows "sint (a - b) =
     (if sint a - sint b < - (2 ^ 63) then sint a - sint b + 2 ^ 64
      else if 2 ^ 63 \<le> sint a - sint b then sint a - sint b - 2 ^ 64
      else sint a - sint b)"
proof -
  have b: "- (2 ^ 63) \<le> sint a" "sint a < 2 ^ 63" "- (2 ^ 63) \<le> sint b" "sint b < 2 ^ 63"
    by (rule sint_bounds64)+
  have "sint (a - b) = signed_take_bit (63::nat) (sint a - sint b)"
    by (simp add: sint_word_ariths)
  also have "\<dots> = (if sint a - sint b < - (2 ^ 63) then sint a - sint b + 2 ^ 64
      else if 2 ^ 63 \<le> sint a - sint b then sint a - sint b - 2 ^ 64
      else sint a - sint b)"
    using b by (intro stb_cases) simp_all
  finally show ?thesis .
qed

subsection \<open>C1: the navigation index\<close>

text \<open>
  C1, as stated, fails: with an empty list \<open>MoveBottom\<close> returns \<open>-1\<close>; an index that is
  already outside the list stays outside; a negative page size moves below 0; and a page
  size near the largest \<open>int\<close> wraps around.
\<close>

theorem C1_counterexample:
  "CalculateNewIndex MoveBottom 0 0 20 = - 1
   \<and> sint (CalculateNewIndex MoveUp 7 3 20) = 6
   \<and> sint (CalculateNewIndex MovePageDown 0 3 (- 5)) = - 5
   \<and> sint (CalculateNewIndex MovePageDown 1 3 9223372036854775807) = - 9223372036854775808"
  by (simp add: Let_def word_sless_alt word_sle_eq)

text \<open>
  C1 (amended): for every navigation action, when the list is not empty, the current index
  lies in \<open>[0, listLength - 1]\<close>, the page size is not negative and current index plus page
  size does not exceed the largest \<open>int\<close>, \<open>CalculateNewIndex\<close> returns a value in
  \<open>[0, listLength - 1]\<close>. (The caller \<open>handleVimNavigation\<close> returns before the call when
  the list is empty.)
\<close>

theorem C1_CalculateNewIndex_in_range:
  assumes c0: "0 \<le>s currentIndex" and cl: "currentIndex <s listLength"
    and p0: "0 \<le>s pageSize"
    and nov: "sint currentIndex + sint pageSize < 2 ^ 63"
  shows "0 \<le>s CalculateNewIndex a currentIndex listLength pageSize
       \<and> CalculateNewIndex a currentIndex listLength pageSize <s listLength"
proof -
  let ?c = "sint currentIndex" and ?l = "sint listLength" and ?p = "sint pageSize"
  have c: "0 \<le> ?c" "?c < ?l" and p: "0 \<le> ?p"
    using c0 cl p0 by (simp_all add: word_sle_eq word_sless_alt)
  have l: "?l < 2 ^ 63" by (rule sint_bounds64)
  have one: "sint (1 :: go_int) = 1" by simp
  have l1: "sint (listLength - 1) = ?l - 1"
    using c l by (subst sint_sub_no_wrap) (simp_all add: one)
  have c1: "sint (currentIndex - 1) = ?c - 1"
    using c l by (subst sint_sub_no_wrap) (simp_all add: one)
  have cp1: "?c < ?l - 1 \<Longrightarrow> sint (currentIndex + 1) = ?c + 1"
    using c l by (subst sint_add_no_wrap) (simp_all add: one)
  have h: "sint (go_quot pageSize 2) = ?p div 2" using p by (rule sint_go_quot_2)
  have hb: "0 \<le> ?p div 2" "?p div 2 \<le> ?p" using p by auto
  have cmh: "sint (currentIndex - go_quot pageSize 2) = ?c - ?p div 2"
    using c l hb nov by (subst sint_sub_no_wrap) (simp_all add: h)
  have cph: "sint (currentIndex + go_quot pageSize 2) = ?c + ?p div 2"
    using c l hb nov by (subst sint_add_no_wrap) (simp_all add: h)
  have cmp: "sint (currentIndex - pageSize) = ?c - ?p"
    using c l p nov by (subst sint_sub_no_wrap) simp_all
  have cpp: "sint (currentIndex + pageSize) = ?c + ?p"
    using c l p nov by (subst sint_add_no_wrap) simp_all
  show ?thesis
    using c p hb
    by (cases a) (auto simp: word_sle_eq word_sless_alt Let_def l1 c1 cp1 cmh cph cmp cpp)
qed

theorem C1_CalculateNewIndex_in_range_witness:
  "0 \<le>s (5 :: go_int) \<and> (5 :: go_int) <s 10 \<and> 0 \<le>s (20 :: go_int)
   \<and> sint (5 :: go_int) + sint (20 :: go_int) < 2 ^ 63
   \<and> 0 \<le>s CalculateNewIndex MoveHalfPageDown 5 10 20
   \<and> CalculateNewIndex MoveHalfPageDown 5 10 20 <s 10
   \<and> CalculateNewIndex MoveHalfPageDown 5 10 20 = 9"
  using C1_CalculateNewIndex_in_range [of 5 10 20 MoveHalfPageDown]
  by (simp add: word_sless_alt word_sle_eq Let_def go_quot_def signed_divide_int_def)

subsection \<open>C2: the search\<close>

lemma Contains_Nil [simp]: "Contains s []"
  by (cases s) simp_all

lemma Contains_sublist: "Contains s substr = sublist substr s"
  by (induction s) (simp_all add: sublist_Cons_right)

lemma ToLower_Nil [simp]: "ToLower unicodeLower [] = []"
  by (simp add: ToLower_def isASCII_def)

lemma ToLower_ascii: "isASCII s \<Longrightarrow> ToLower unicodeLower s = map toLowerChar s"
  by (simp add: ToLower_def)

text \<open>
  A search beyond ASCII. Given the lower-case forms that \<open>unicode.ToLower\<close> has for
  U+00C9 and U+00E9 (the bytes C3 89 and C3 A9), the query \<open>U+00E9 cole\<close> matches the
  items \<open>U+00C9 COLE\<close> and \<open>U+00E9 cole-2\<close> and not the item \<open>ecole\<close>.
\<close>

lemma test_SearchItems_unicode:
  fixes unicodeLower :: "string \<Rightarrow> string"
  defines "upper \<equiv> CHR 0xC3 # CHR 0x89 # ''COLE''"
    and "lower \<equiv> CHR 0xC3 # CHR 0xA9 # ''cole''"
    and "lower2 \<equiv> CHR 0xC3 # CHR 0xA9 # ''cole-2''"
  assumes u: "unicodeLower upper = lower" "unicodeLower lower = lower"
    "unicodeLower lower2 = lower2"
  shows "SearchResults (SearchItems unicodeLower (NewState\<lparr>SearchQuery := lower\<rparr>)
     [upper, ''ecole'', lower2]) = [0, 2]"
proof -
  have a: "\<not> isASCII upper" "\<not> isASCII lower" "\<not> isASCII lower2" "isASCII ''ecole''"
    unfolding upper_def lower_def lower2_def by code_simp+
  have l: "ToLower unicodeLower upper = lower" "ToLower unicodeLower lower = lower"
    "ToLower unicodeLower lower2 = lower2"
    using a u by (simp_all add: ToLower_def)
  have e: "ToLower unicodeLower ''ecole'' = ''ecole''"
    unfolding ToLower_ascii [OF a(4)] by code_simp
  have c: "Contains lower lower" "\<not> Contains ''ecole'' lower" "Contains lower2 lower"
    unfolding lower_def lower2_def by code_simp+
  show ?thesis
    by (simp add: SearchItems_def NewState_def Let_def l e c del: Contains.simps)
qed

lemma searchLoop_eq:
  "searchLoop unicodeLower q i items acc =
     acc @ map (\<lambda>k. i + int k) (filter (\<lambda>k. Contains (ToLower unicodeLower (items ! k)) q) [0..<length items])"
proof (induction items arbitrary: i acc)
  case Nil
  then show ?case by simp
next
  case (Cons item items)
  have upt: "[0..<Suc (length items)] = 0 # map Suc [0..<length items]"
    by (simp add: upt_conv_Cons map_Suc_upt del: upt_Suc)
  show ?case
    by (simp add: Cons.IH upt filter_map o_def add.assoc del: upt_Suc)
qed

lemma SearchResults_SearchItems:
  "SearchResults (SearchItems unicodeLower s items) = map int (search_spec unicodeLower (SearchQuery s) items)"
  by (simp add: SearchItems_def Let_def searchLoop_eq search_spec_def)

lemma SearchItems_fields [simp]:
  "SearchQuery (SearchItems unicodeLower s items) = SearchQuery s"
  "Mode (SearchItems unicodeLower s items) = Mode s"
  "LastSearch (SearchItems unicodeLower s items) = LastSearch s"
  "CommandBuffer (SearchItems unicodeLower s items) = CommandBuffer s"
  by (simp_all add: SearchItems_def Let_def)

lemma search_spec_sorted: "sorted_wrt (<) (map int (search_spec unicodeLower q items))"
  by (simp add: search_spec_def sorted_wrt_map sorted_wrt_filter)

lemma search_spec_set:
  "k \<in> set (search_spec unicodeLower q items) \<longleftrightarrow>
     k < length items \<and> Contains (ToLower unicodeLower (items ! k)) (ToLower unicodeLower q)"
  by (auto simp: search_spec_def)

lemma search_spec_empty_query [simp]: "search_spec unicodeLower [] items = [0..<length items]"
  by (simp add: search_spec_def)

lemma filterByIndices_map_int:
  "\<forall>k \<in> set ks. k < length items \<Longrightarrow>
     filterByIndices items (map int ks) = Some (map (nth items) ks)"
  by (induction ks) (simp_all add: go_index_def)

lemma filterByIndices_all: "filterByIndices items (map int [0..<length items]) = Some items"
  by (simp add: filterByIndices_map_int map_nth)

lemma filterByIndices_SearchItems:
  "filterByIndices xs (SearchResults (SearchItems unicodeLower s (map key xs)))
     = Some (map (nth xs) (search_spec unicodeLower (SearchQuery s) (map key xs)))"
  unfolding SearchResults_SearchItems
  by (rule filterByIndices_map_int) (simp add: search_spec_set)

lemma applyVimSearch_total:
  "\<exists>m'. applyVimSearch unicodeLower m = Some m'
      \<and> Mode (vimState m') = Mode (vimState m)
      \<and> SearchQuery (vimState m') = SearchQuery (vimState m)
      \<and> LastSearch (vimState m') = LastSearch (vimState m)
      \<and> CommandBuffer (vimState m') = CommandBuffer (vimState m)
      \<and> currentScreen m' = currentScreen m"
  by (cases "currentScreen m")
    (simp_all add: applyVimSearch_def Let_def filterByIndices_SearchItems setSelectedIndex_def)

lemma applyVimSearch_empty_query:
  assumes "SearchQuery (vimState m) = []" and "applyVimSearch unicodeLower m = Some m'"
  shows "(currentScreen m = accountScreen \<longrightarrow> ssoFilteredAccounts m' = ssoAccounts m)
       \<and> (currentScreen m = ec2Screen \<longrightarrow> ec2FilteredInstances m' = ec2Instances m)
       \<and> (currentScreen m = s3Screen \<longrightarrow> s3FilteredBuckets m' = s3Buckets m)
       \<and> (currentScreen m = s3BrowseScreen \<longrightarrow> s3FilteredObjects m' = s3Objects m)
       \<and> (currentScreen m = eksScreen \<longrightarrow> eksFilteredClusters m' = eksClusters m)"
  using assms
  by (cases "currentScreen m")
    (auto simp: applyVimSearch_def Let_def SearchResults_SearchItems filterByIndices_all
       setSelectedIndex_def split: if_splits)

text \<open>
  C2: for every query and every list of items (of any bytes: the case folding beyond
  ASCII is the parameter \<open>unicodeLower\<close>, and the statement holds for every such
  function), the matches depend on the query and the items only (two states with the same
  query get the same matches, and searching again changes nothing); they are the indices
  of the specification's search; every match is an index of the list whose case-folded
  item contains the case-folded query; the matches are in the order of the list; and for
  the empty query they are all the indices, so that the filtered list that
  \<open>applyVimSearch\<close> builds from them is the list itself, on each of the five list screens.
\<close>

theorem C2_search_is_pure:
  "(SearchQuery s' = SearchQuery s \<longrightarrow>
      SearchResults (SearchItems unicodeLower s' items) = SearchResults (SearchItems unicodeLower s items))
   \<and> SearchResults (SearchItems unicodeLower (SearchItems unicodeLower s items) items) = SearchResults (SearchItems unicodeLower s items)
   \<and> SearchResults (SearchItems unicodeLower s items) = map int (search_spec unicodeLower (SearchQuery s) items)
   \<and> (\<forall>i \<in> set (SearchResults (SearchItems unicodeLower s items)).
        0 \<le> i \<and> i < int (length items)
        \<and> Contains (ToLower unicodeLower (items ! nat i)) (ToLower unicodeLower (SearchQuery s)))
   \<and> sorted_wrt (<) (SearchResults (SearchItems unicodeLower s items))
   \<and> (SearchQuery s = [] \<longrightarrow>
        SearchResults (SearchItems unicodeLower s items) = map int [0..<length items]
        \<and> filterByIndices items (SearchResults (SearchItems unicodeLower s items)) = Some items)
   \<and> (SearchQuery (vimState m) = [] \<longrightarrow>
        (\<exists>m'. applyVimSearch unicodeLower m = Some m'
           \<and> (currentScreen m = accountScreen \<longrightarrow> ssoFilteredAccounts m' = ssoAccounts m)
           \<and> (currentScreen m = ec2Screen \<longrightarrow> ec2FilteredInstances m' = ec2Instances m)
           \<and> (currentScreen m = s3Screen \<longrightarrow> s3FilteredBuckets m' = s3Buckets m)
           \<and> (currentScreen m = s3BrowseScreen \<longrightarrow> s3FilteredObjects m' = s3Objects m)
           \<and> (currentScreen m = eksScreen \<longrightarrow> eksFilteredClusters m' = eksClusters m)))"
proof -
  have det: "SearchResults (SearchItems unicodeLower s' items) = SearchResults (SearchItems unicodeLower s items)"
    if "SearchQuery s' = SearchQuery s"
    using that by (simp add: SearchResults_SearchItems)
  have twice: "SearchResults (SearchItems unicodeLower (SearchItems unicodeLower s items) items)
      = SearchResults (SearchItems unicodeLower s items)"
    by (simp add: SearchResults_SearchItems)
  have sound: "\<forall>i \<in> set (SearchResults (SearchItems unicodeLower s items)).
        0 \<le> i \<and> i < int (length items)
        \<and> Contains (ToLower unicodeLower (items ! nat i)) (ToLower unicodeLower (SearchQuery s))"
    by (auto simp: SearchResults_SearchItems search_spec_set)
  have ordered: "sorted_wrt (<) (SearchResults (SearchItems unicodeLower s items))"
    by (simp add: SearchResults_SearchItems search_spec_sorted)
  have empty: "SearchResults (SearchItems unicodeLower s items) = map int [0..<length items]
        \<and> filterByIndices items (SearchResults (SearchItems unicodeLower s items)) = Some items"
    if "SearchQuery s = []"
    using that by (simp add: SearchResults_SearchItems filterByIndices_all)
  have view: "\<exists>m'. applyVimSearch unicodeLower m = Some m'
           \<and> (currentScreen m = accountScreen \<longrightarrow> ssoFilteredAccounts m' = ssoAccounts m)
           \<and> (currentScreen m = ec2Screen \<longrightarrow> ec2FilteredInstances m' = ec2Instances m)
           \<and> (currentScreen m = s3Screen \<longrightarrow> s3FilteredBuckets m' = s3Buckets m)
           \<and> (currentScreen m = s3BrowseScreen \<longrightarrow> s3FilteredObjects m' = s3Objects m)
           \<and> (currentScreen m = eksScreen \<longrightarrow> eksFilteredClusters m' = eksClusters m)"
    if q: "SearchQuery (vimState m) = []"
  proof -
    from applyVimSearch_total [of unicodeLower m] obtain m' where m': "applyVimSearch unicodeLower m = Some m'" by blast
    from applyVimSearch_empty_query [OF q m'] m' show ?thesis by blast
  qed
  from det twice sound ordered empty view show ?thesis
    by (simp add: SearchResults_SearchItems)
qed

theorem C2_search_is_pure_witness:
  "SearchQuery (NewState\<lparr>SearchQuery := ''EC2'', CurrentMatch := 7\<rparr>)
     = SearchQuery (NewState\<lparr>SearchQuery := ''EC2''\<rparr>)
   \<and> SearchResults (SearchItems noUnicode (NewState\<lparr>SearchQuery := ''EC2''\<rparr>) exampleItems) = [0, 1, 3]
   \<and> SearchResults (SearchItems noUnicode (NewState\<lparr>SearchQuery := ''EC2'', CurrentMatch := 7\<rparr>) exampleItems)
       = [0, 1, 3]
   \<and> Contains (ToLower noUnicode (exampleItems ! nat 3)) (ToLower noUnicode ''EC2'')
   \<and> sorted_wrt (<) [0, 1, 3 :: int]
   \<and> SearchQuery NewState = [] \<and> SearchQuery (vimState exampleModel) = []
   \<and> SearchResults (SearchItems noUnicode NewState exampleItems) = [0, 1, 2, 3]
   \<and> filterByIndices exampleItems [0, 1, 2, 3] = Some exampleItems
   \<and> currentScreen exampleModel = ec2Screen
   \<and> (\<exists>m'. applyVimSearch noUnicode exampleModel = Some m'
          \<and> ec2FilteredInstances m' = ec2Instances exampleModel)"
proof -
  have h: "SearchQuery (NewState\<lparr>SearchQuery := ''EC2'', CurrentMatch := 7\<rparr>)
     = SearchQuery (NewState\<lparr>SearchQuery := ''EC2''\<rparr>)"
    "SearchQuery NewState = []" "SearchQuery (vimState exampleModel) = []"
    "currentScreen exampleModel = ec2Screen"
    by code_simp+
  have r: "SearchResults (SearchItems noUnicode (NewState\<lparr>SearchQuery := ''EC2''\<rparr>) exampleItems) = [0, 1, 3]"
    "map int [0..<length exampleItems] = [0, 1, 2, 3]"
    by code_simp+
  note a = C2_search_is_pure [where s' = "NewState\<lparr>SearchQuery := ''EC2'', CurrentMatch := 7\<rparr>"
      and s = "NewState\<lparr>SearchQuery := ''EC2''\<rparr>" and items = exampleItems
      and m = exampleModel and unicodeLower = noUnicode]
  note b = C2_search_is_pure [where s' = NewState and s = NewState and items = exampleItems
      and m = exampleModel and unicodeLower = noUnicode]
  from a h(1) r(1)
  have a1: "SearchResults (SearchItems noUnicode (NewState\<lparr>SearchQuery := ''EC2'', CurrentMatch := 7\<rparr>) exampleItems)
       = [0, 1, 3]"
    by metis
  from a r(1) have a2: "\<forall>i \<in> set [0, 1, 3 :: int].
        Contains (ToLower noUnicode (exampleItems ! nat i)) (ToLower noUnicode (SearchQuery (NewState\<lparr>SearchQuery := ''EC2''\<rparr>)))"
    by metis
  then have a3: "Contains (ToLower noUnicode (exampleItems ! nat 3)) (ToLower noUnicode ''EC2'')"
    by simp
  from a r(1) have a4: "sorted_wrt (<) [0, 1, 3 :: int]" by metis
  from b h(2) r(2)
  have b1: "SearchResults (SearchItems noUnicode NewState exampleItems) = [0, 1, 2, 3]"
    "filterByIndices exampleItems [0, 1, 2, 3] = Some exampleItems"
    by metis+
  from b h(3,4)
  have b2: "\<exists>m'. applyVimSearch noUnicode exampleModel = Some m'
          \<and> ec2FilteredInstances m' = ec2Instances exampleModel"
    by metis
  from h r(1) a1 a3 a4 b1 b2 show ?thesis by blast
qed

subsection \<open>Update: the vim modes and the message switch\<close>

lemma Update_in_vim_mode:
  assumes "noDialog m" and "Mode (vimState m) \<noteq> NormalMode"
  shows "Update unicodeLower other m (KeyPress k) = updateVimModes unicodeLower m k"
  using assms by (cases "Mode (vimState m)") (auto simp: Update_def noDialog_def)

lemma Update_normal_mode:
  assumes "noDialog m" and "Mode (vimState m) = NormalMode" and "\<not> filtering m"
  shows "Update unicodeLower other m msg =
    (case msg of
          BulkActionCompleted b \<Rightarrow>
            Some (m\<lparr>loading := False, showingConfirm := False,
                    statusMessage :=
                      (if 0 < failureCount b then
                         ''Bulk '' @ action b @ '': '' @ itoa (successCount b) @ '' succeeded, ''
                         @ itoa (failureCount b) @ '' failed''
                       else
                         ''Bulk '' @ action b @ '': '' @ itoa (successCount b)
                         @ '' instances succeeded''),
                    ec2SelectedInstances := Map.empty\<rparr>, Some loadEC2Instances)
        | KeyPress k \<Rightarrow>
            if k = ''/'' then Some (m\<lparr>vimState := EnterSearchMode (vimState m)\<rparr>, None)
            else if k = ''n'' then
              (if LastSearch (vimState m) \<noteq> [] then
                 (case NextMatch (vimState m) of
                    None \<Rightarrow> None
                  | Some (idx, vs) \<Rightarrow>
                      (let m = m\<lparr>vimState := vs\<rparr>
                       in Some (if 0 \<le> idx then setSelectedIndex m idx else m, None)))
               else if currentScreen m = s3BrowseScreen \<and> s3IsTruncated m
                       \<and> s3NextContinuationToken m \<noteq> None then
                 Some (m\<lparr>loading := True\<rparr>,
                       Some (loadS3Objects (s3CurrentBucket m) (s3CurrentPrefix m)
                               (s3NextContinuationToken m)))
               else Some (m, None))
            else if k = ''N'' then
              (if LastSearch (vimState m) \<noteq> [] then
                 (case PrevMatch (vimState m) of
                    None \<Rightarrow> None
                  | Some (idx, vs) \<Rightarrow>
                      (let m = m\<lparr>vimState := vs\<rparr>
                       in Some (if 0 \<le> idx then setSelectedIndex m idx else m, None)))
               else Some (m, None))
            else if k = '':'' then Some (m\<lparr>vimState := EnterCommandMode (vimState m)\<rparr>, None)
            else if k = ''tab'' then
              (let m = clearSearch m in
               if currentScreen m = ec2Screen then Some (m\<lparr>currentScreen := s3Screen\<rparr>, None)
               else if currentScreen m = s3Screen then
                 (let m = m\<lparr>currentScreen := eksScreen\<rparr> in
                  if length (eksClusters m) = 0 then Some (m\<lparr>loading := True\<rparr>, Some loadEKSClusters)
                  else Some (m, None))
               else if currentScreen m = eksScreen then Some (m\<lparr>currentScreen := ec2Screen\<rparr>, None)
               else Some (m, None))
            else if k = ''x'' then
              (if currentScreen m = ec2Screen then
                 Some (m\<lparr>ec2SelectedInstances := Map.empty,
                         statusMessage := ''Cleared all selections''\<rparr>, None)
               else Some (m, None))
            else other m msg
        | OtherMsg \<Rightarrow> other m msg)"
  using assms unfolding Update_def noDialog_def by (simp only: simp_thms if_False Mode.simps) 

lemma executeVimCommand_Mode [simp]:
  "Mode (vimState (fst (executeVimCommand m commandStr))) = Mode (vimState m)"
  by (simp add: executeVimCommand_def Let_def clearSearch_def split: option.splits)

lemma updateVimModes_to_normal:
  assumes "msg \<noteq> ''tab''" and "HandleKey (vimState m) msg = (True, vs)"
    and "Mode vs = NormalMode"
  shows "updateVimModes unicodeLower m msg =
     do {
       m \<leftarrow> (if LastSearch vs \<noteq> [] then applyVimSearch unicodeLower (m\<lparr>vimState := vs\<rparr>)
             else Some (m\<lparr>vimState := vs\<rparr>));
       (if Mode (vimState m) = NormalMode \<and> CommandBuffer (vimState m) \<noteq> [] then
          (let (m, cmd) = executeVimCommand m (CommandBuffer (vimState m));
               m = m\<lparr>vimState := (vimState m)\<lparr>CommandBuffer := []\<rparr>, commandSuggestions := []\<rparr>
           in Some (m, cmd))
        else Some (m, None))
     }"
  using assms by (simp add: updateVimModes_def)

lemma escape_leaves_search_mode:
  assumes "noDialog m" and "Mode (vimState m) = SearchMode"
  shows "\<exists>m' c. Update unicodeLower other m (KeyPress ''esc'') = Some (m', c)
      \<and> Mode (vimState m') = NormalMode"
proof -
  define vs where "vs = (vimState m)\<lparr>SearchQuery := [], SearchResults := [],
                                            CurrentMatch := 0, Mode := NormalMode\<rparr>"
  have hk: "HandleKey (vimState m) ''esc'' = (True, vs)"
    using assms(2) by (simp add: HandleKey_def handleSearchMode_def vs_def)
  have nm: "Mode vs = NormalMode"
    by (simp add: vs_def)
  define m1 where "m1 = m\<lparr>vimState := vs\<rparr>"
  from applyVimSearch_total [of unicodeLower m1] obtain m' where
    m': "applyVimSearch unicodeLower m1 = Some m'" "Mode (vimState m') = NormalMode"
    by (auto simp: m1_def nm)
  define m2 where "m2 = (if LastSearch vs \<noteq> [] then m' else m1)"
  have mode2: "Mode (vimState m2) = NormalMode"
    using m' by (simp add: m2_def m1_def nm)
  have step: "(if LastSearch vs \<noteq> [] then applyVimSearch unicodeLower (m\<lparr>vimState := vs\<rparr>)
             else Some (m\<lparr>vimState := vs\<rparr>)) = Some m2"
    using m' by (simp add: m2_def m1_def)
  obtain m3 c where ex: "executeVimCommand m2 (CommandBuffer (vimState m2)) = (m3, c)"
    by (cases "executeVimCommand m2 (CommandBuffer (vimState m2))")
  have mode3: "Mode (vimState m3) = NormalMode"
    using executeVimCommand_Mode [of m2 "CommandBuffer (vimState m2)"] mode2 by (simp add: ex)
  have "updateVimModes unicodeLower m ''esc'' =
     (if CommandBuffer (vimState m2) \<noteq> [] then
        Some (m3\<lparr>vimState := (vimState m3)\<lparr>CommandBuffer := []\<rparr>, commandSuggestions := []\<rparr>, c)
      else Some (m2, None))"
    unfolding updateVimModes_to_normal [OF _ hk nm, simplified] step
    by (simp add: mode2 ex)
  then show ?thesis
    using assms mode2 mode3
    by (auto simp: Update_in_vim_mode)
qed

subsection \<open>C3: Escape in Search mode\<close>

text \<open>
  C3: the code does not do what the claim says. On the example screen, after \<open>/ec2\<close> and
  Escape the query is empty and the mode is Normal, but \<open>LastSearch\<close> is still \<open>ec2\<close>
  (\<open>Update\<close> stored it as it was typed, and neither \<open>handleSearchMode\<close> nor \<open>Update\<close>
  clears it on Escape), and \<open>Update\<close> then runs \<open>applyVimSearch\<close> with the emptied query:
  the filtered list is not cleared but holds all four instances, under the status line
  of a search with 4 results. The sibling path of \<open>Update\<close> for a query emptied with
  backspace clears \<open>LastSearch\<close> and the filtered list, as the claim says Escape does.
\<close>

theorem C3_escape_keeps_search:
  "map_option
     (\<lambda>m. (Mode (vimState m), SearchQuery (vimState m), LastSearch (vimState m),
           map Instance.ID (ec2FilteredInstances m), statusMessage m))
     (runKeys noUnicode noOther exampleModel [''/'', ''e'', ''c'', ''2'', ''esc''])
   = Some (NormalMode, [], ''ec2'', [''ec2-1'', ''ec2-2'', ''s3-x'', ''ec2-3''],
           ''Showing 4 matching results (ESC or :cf to clear)'')
   \<and> map_option
     (\<lambda>m. (Mode (vimState m), SearchQuery (vimState m), LastSearch (vimState m),
           map Instance.ID (ec2FilteredInstances m)))
     (runKeys noUnicode noOther exampleModel
        [''/'', ''e'', ''c'', ''2'', ''backspace'', ''backspace'', ''backspace''])
   = Some (SearchMode, [], [], [])"
  by code_simp

subsection \<open>C4: entering and leaving Search mode\<close>

lemma HandleKey_esc_Mode: "Mode (snd (HandleKey s ''esc'')) = NormalMode"
  by (cases "Mode s") (simp_all add: HandleKey_def handleSearchMode_def handleCommandMode_def)

text \<open>
  C4, as stated, fails while a dialog is shown: \<open>Update\<close> tests the set-up screens and the
  dialogs before the keys of the vim modes, so with a confirmation showing \<open>/\<close> goes to
  the dialog and the mode stays Normal.
\<close>

theorem C4_counterexample:
  "Mode (vimState (exampleModel\<lparr>showingConfirm := True\<rparr>)) = NormalMode
   \<and> map_option (\<lambda>m. Mode (vimState m))
        (runKeys noUnicode noOther (exampleModel\<lparr>showingConfirm := True\<rparr>) [''/''])
      = Some NormalMode"
  by code_simp

text \<open>
  C4 (amended): from Normal mode, with no set-up screen, dialog or legacy filter before
  the message switch, \<open>/\<close> yields Search mode with an empty query; from Search mode, with
  no set-up screen or dialog before the vim modes, Escape yields Normal mode, whatever was
  typed. On the vim state alone \<open>EnterSearchMode\<close> yields Search mode with an empty query
  and, after any keys, Escape yields Normal mode. The value of \<open>LastSearch\<close> after the
  Escape is not part of the statement.
\<close>

theorem C4_mode_transitions:
  "(noDialog m \<and> Mode (vimState m) = NormalMode \<and> \<not> filtering m \<longrightarrow>
      (\<exists>m'. Update unicodeLower other m (KeyPress ''/'') = Some (m', None)
         \<and> Mode (vimState m') = SearchMode \<and> SearchQuery (vimState m') = []))
   \<and> (noDialog m \<and> Mode (vimState m) = SearchMode \<longrightarrow>
      (\<exists>m' c. Update unicodeLower other m (KeyPress ''esc'') = Some (m', c)
         \<and> Mode (vimState m') = NormalMode))
   \<and> Mode (EnterSearchMode s) = SearchMode \<and> SearchQuery (EnterSearchMode s) = []
   \<and> Mode (snd (HandleKey (typeKeys (EnterSearchMode s) keys) ''esc'')) = NormalMode"
proof -
  have slash: "\<exists>m'. Update unicodeLower other m (KeyPress ''/'') = Some (m', None)
         \<and> Mode (vimState m') = SearchMode \<and> SearchQuery (vimState m') = []"
    if "noDialog m" "Mode (vimState m) = NormalMode" "\<not> filtering m"
    using that by (simp add: Update_normal_mode EnterSearchMode_def)
  have esc: "\<exists>m' c. Update unicodeLower other m (KeyPress ''esc'') = Some (m', c)
         \<and> Mode (vimState m') = NormalMode"
    if "noDialog m" "Mode (vimState m) = SearchMode"
    using that by (rule escape_leaves_search_mode)
  from slash esc show ?thesis
    by (simp add: HandleKey_esc_Mode EnterSearchMode_def)
qed

theorem C4_mode_transitions_witness:
  "noDialog exampleModel \<and> Mode (vimState exampleModel) = NormalMode
   \<and> \<not> filtering exampleModel
   \<and> (\<exists>m'. Update noUnicode noOther exampleModel (KeyPress ''/'') = Some (m', None)
         \<and> Mode (vimState m') = SearchMode \<and> SearchQuery (vimState m') = [])
   \<and> noDialog exampleSearching \<and> Mode (vimState exampleSearching) = SearchMode
   \<and> (\<exists>m' c. Update noUnicode noOther exampleSearching (KeyPress ''esc'') = Some (m', c)
         \<and> Mode (vimState m') = NormalMode)
   \<and> Mode (snd (HandleKey (typeKeys (EnterSearchMode NewState) [''e'', ''c'', ''backspace''])
                  ''esc'')) = NormalMode"
proof -
  have h1: "noDialog exampleModel \<and> Mode (vimState exampleModel) = NormalMode
      \<and> \<not> filtering exampleModel"
    by code_simp
  have h2: "noDialog exampleSearching \<and> Mode (vimState exampleSearching) = SearchMode"
    by code_simp
  from C4_mode_transitions [where m = exampleModel and unicodeLower = noUnicode
      and other = noOther and s = NewState and keys = "[''e'', ''c'', ''backspace'']"] h1
  have a: "\<exists>m'. Update noUnicode noOther exampleModel (KeyPress ''/'') = Some (m', None)
         \<and> Mode (vimState m') = SearchMode \<and> SearchQuery (vimState m') = []"
    and c: "Mode (snd (HandleKey (typeKeys (EnterSearchMode NewState) [''e'', ''c'', ''backspace''])
                  ''esc'')) = NormalMode"
    by blast+
  from C4_mode_transitions [where m = exampleSearching and unicodeLower = noUnicode
      and other = noOther and s = NewState and keys = "[]"] h2
  have b: "\<exists>m' c. Update noUnicode noOther exampleSearching (KeyPress ''esc'') = Some (m', c)
         \<and> Mode (vimState m') = NormalMode"
    by blast
  from h1 h2 a b c show ?thesis by blast
qed

subsection \<open>C5: the scenario of the search\<close>

text \<open>
  C5: on the example screen the query \<open>ec2\<close> matches the indices 0, 1 and 3, the filtered
  list is ec2-1, ec2-2, ec2-3 and the selection is 0. After two presses of \<open>n\<close> the
  current match is position 2, but the selected index is 3, the index of ec2-3 in the
  unfiltered list, which is outside the filtered list of three items; the claim says 2.
  A third press selects 0.
\<close>

theorem C5_next_match_selection:
  "SearchResults (SearchItems noUnicode (NewState\<lparr>SearchQuery := ''ec2''\<rparr>) exampleItems) = [0, 1, 3]
   \<and> map_option (\<lambda>m. (SearchResults (vimState m), CurrentMatch (vimState m), ec2SelectedIndex m,
                       map Instance.ID (ec2FilteredInstances m)))
        (runKeys noUnicode noOther exampleModel [''/'', ''e'', ''c'', ''2'', ''enter''])
      = Some ([0, 1, 3], 0, 0, [''ec2-1'', ''ec2-2'', ''ec2-3''])
   \<and> map_option (\<lambda>m. (SearchResults (vimState m), CurrentMatch (vimState m), ec2SelectedIndex m,
                       map Instance.ID (ec2FilteredInstances m)))
        (runKeys noUnicode noOther exampleModel [''/'', ''e'', ''c'', ''2'', ''enter'', ''n'', ''n''])
      = Some ([0, 1, 3], 2, 3, [''ec2-1'', ''ec2-2'', ''ec2-3''])
   \<and> map_option (\<lambda>m. (SearchResults (vimState m), CurrentMatch (vimState m), ec2SelectedIndex m,
                       map Instance.ID (ec2FilteredInstances m)))
        (runKeys noUnicode noOther exampleModel [''/'', ''e'', ''c'', ''2'', ''enter'', ''n'', ''n'', ''n''])
      = Some ([0, 1, 3], 0, 0, [''ec2-1'', ''ec2-2'', ''ec2-3''])"
  by code_simp

subsection \<open>C6: the counts of a bulk action\<close>

lemma bulkLoop_counts:
  "bulkLoop client act ids succ fail w = ((succ', fail'), w') \<Longrightarrow>
     succ' + fail' = succ + fail + int (length ids) \<and> succ \<le> succ' \<and> fail \<le> fail'"
proof (induction ids arbitrary: succ fail w)
  case Nil
  then show ?case by simp
next
  case (Cons instanceID rest)
  then show ?case
    by (auto simp: Let_def split: prod.splits if_splits) fastforce+
qed

text \<open>
  C6: for every client, action name and list of instance ids, the success count and the
  failure count of the completion message are not negative and add up to the number of
  ids; the message carries the action name.
\<close>

theorem C6_bulk_counts_sum:
  "successCount (fst (performBulkAction client act instanceIDs w))
     + failureCount (fst (performBulkAction client act instanceIDs w)) = int (length instanceIDs)
   \<and> 0 \<le> successCount (fst (performBulkAction client act instanceIDs w))
   \<and> 0 \<le> failureCount (fst (performBulkAction client act instanceIDs w))
   \<and> action (fst (performBulkAction client act instanceIDs w)) = act"
proof -
  obtain s f w' where b: "bulkLoop client act instanceIDs 0 0 w = ((s, f), w')"
    by (metis prod.exhaust)
  from bulkLoop_counts [OF b] show ?thesis
    by (simp add: performBulkAction_def b)
qed

theorem C6_bulk_counts_sum_witness:
  "successCount (fst (performBulkAction exampleClient ''stop'' [''i-1'', ''i-gone'', ''i-2''] ())) = 2
   \<and> failureCount (fst (performBulkAction exampleClient ''stop'' [''i-1'', ''i-gone'', ''i-2''] ())) = 1
   \<and> successCount (fst (performBulkAction exampleClient ''stop'' [''i-1'', ''i-gone'', ''i-2''] ()))
     + failureCount (fst (performBulkAction exampleClient ''stop'' [''i-1'', ''i-gone'', ''i-2''] ()))
     = int (length [''i-1'', ''i-gone'', ''i-2''])"
proof -
  have "successCount (fst (performBulkAction exampleClient ''stop'' [''i-1'', ''i-gone'', ''i-2''] ())) = 2"
    by code_simp
  with C6_bulk_counts_sum [of exampleClient "''stop''" "[''i-1'', ''i-gone'', ''i-2'']" "()"]
  show ?thesis by simp
qed

subsection \<open>C7: ensureVisible\<close>

lemma ensureVisible_steps:
  "ensureVisible m sel len =
     (if len = 0 then m\<lparr>viewportOffset := 0\<rparr>
      else m\<lparr>viewportOffset :=
               clampOffset (maxOffset len (availableHeight m))
                 (scrollTo (availableHeight m) (viewportOffset m) sel)\<rparr>)"
  by (simp add: ensureVisible_def availableHeight_def scrollTo_def maxOffset_def clampOffset_def
      Let_def)

lemma availableHeight_ge: "5 \<le> sint (availableHeight m)"
  by (simp add: availableHeight_def Let_def word_sless_alt)

lemma maxOffset_sint:
  assumes "0 \<le> sint len" and "5 \<le> sint a"
  shows "sint (maxOffset len a) = max 0 (sint len - sint a)"
  using assms sint_bounds64 [of len] sint_bounds64 [of a]
  by (simp add: maxOffset_def Let_def word_sless_alt sint_sub_cases)

lemma clampOffset_sint:
  assumes "0 \<le> sint mo"
  shows "sint (clampOffset mo x) =
     (if sint mo < sint x then sint mo else if sint x < 0 then 0 else sint x)"
  using assms by (simp add: clampOffset_def Let_def word_sless_alt)

lemma scrollTo_sint:
  "sint (scrollTo a off sel) =
     (if sint sel < sint off then sint sel
      else if sint (off + a) \<le> sint sel then sint (sel - a + 1) else sint off)"
  by (simp add: scrollTo_def word_sless_alt word_sle_eq)

lemma step_idem:
  assumes A: "5 \<le> sint a" and MO: "0 \<le> sint mo" "sint mo + sint a < 2 ^ 63"
  shows "clampOffset mo (scrollTo a (clampOffset mo (scrollTo a off sel)) sel)
       = clampOffset mo (scrollTo a off sel)"
proof -
  define r where "r = clampOffset mo (scrollTo a off sel)"
  note bnd = sint_bounds64 [of sel] sint_bounds64 [of off] sint_bounds64 [of a]
    sint_bounds64 [of mo]
  have one: "sint (1 :: go_int) = 1" by simp
  have x2: "sint (sel - a + 1) =
      (if sint sel - sint a + 1 < - (2 ^ 63) then sint sel - sint a + 1 + 2 ^ 64
       else sint sel - sint a + 1)"
    using bnd A by (simp add: sint_add_cases [of "sel - a" 1] sint_sub_cases [of sel a] one)
  have oa: "sint (off + a) =
      (if 2 ^ 63 \<le> sint off + sint a then sint off + sint a - 2 ^ 64 else sint off + sint a)"
    using bnd A by (simp add: sint_add_cases [of off a])
  have R: "sint r =
     (if sint mo < sint (scrollTo a off sel) then sint mo
      else if sint (scrollTo a off sel) < 0 then 0 else sint (scrollTo a off sel))"
    unfolding r_def using MO(1) by (rule clampOffset_sint)
  have Rb: "0 \<le> sint r" "sint r \<le> sint mo"
    using MO(1) by (auto simp: R)
  have ra: "sint (r + a) = sint r + sint a"
    using Rb MO A bnd by (simp add: sint_add_cases [of r a])
  have I: "sint r = 0" if "sint sel < sint r"
    using that bnd A MO
    by (auto simp: R scrollTo_sint x2 oa split: if_splits)
  have II: "sint r = sint mo" if "sint r + sint a \<le> sint sel"
    using that bnd A MO
    by (auto simp: R scrollTo_sint x2 oa split: if_splits)
  have "sint (clampOffset mo (scrollTo a r sel)) = sint r"
    using I II Rb bnd A MO
    by (auto simp: clampOffset_sint scrollTo_sint [of a r sel] ra x2 split: if_splits)
  then show ?thesis
    unfolding r_def by (simp add: sint_eq_iff64)
qed


lemma availableHeight_viewportOffset [simp]:
  "availableHeight (m\<lparr>viewportOffset := x\<rparr>) = availableHeight m"
  by (simp add: availableHeight_def)

lemma availableHeight_sint:
  assumes "22 - 2 ^ 63 \<le> sint (height m)"
  shows "sint (availableHeight m) = max 5 (sint (height m) - 22)"
proof -
  have "sint (height m - 22) = sint (height m) - 22"
    using assms sint_bounds64 [of "height m"] by (simp add: sint_sub_cases [of "height m" 22])
  then show ?thesis
    by (simp add: availableHeight_def Let_def word_sless_alt)
qed

text \<open>
  C7: for every list length (a length is not negative), selected index, terminal height
  and starting offset, also where the arithmetic wraps around, a second \<open>ensureVisible\<close>
  with the same selected index and list length changes nothing, and the offset lies in
  \<open>[0, max(0, listLength - availableHeight)]\<close>, where \<open>availableHeight\<close> is
  \<open>max(5, height - 22)\<close> for every height whose difference to 22 is an \<open>int\<close>.
\<close>

theorem C7_ensureVisible_idempotent:
  assumes "0 \<le>s listLength"
  shows "ensureVisible (ensureVisible m selectedIndex listLength) selectedIndex listLength
           = ensureVisible m selectedIndex listLength
       \<and> 0 \<le>s viewportOffset (ensureVisible m selectedIndex listLength)
       \<and> sint (viewportOffset (ensureVisible m selectedIndex listLength))
           \<le> max 0 (sint listLength - sint (availableHeight m))
       \<and> (22 - 2 ^ 63 \<le> sint (height m) \<longrightarrow>
            sint (availableHeight m) = max 5 (sint (height m) - 22))"
proof -
  let ?a = "availableHeight m" and ?mo = "maxOffset listLength (availableHeight m)"
  have L: "0 \<le> sint listLength" using assms by (simp add: word_sle_eq)
  have A: "5 \<le> sint ?a" by (rule availableHeight_ge)
  have MO: "sint ?mo = max 0 (sint listLength - sint ?a)"
    using L A by (rule maxOffset_sint)
  have MO0: "0 \<le> sint ?mo" and MOA: "sint ?mo + sint ?a < 2 ^ 63"
    using A sint_bounds64 [of listLength] sint_bounds64 [of ?a] by (simp_all add: MO)
  have idem: "ensureVisible (ensureVisible m selectedIndex listLength) selectedIndex listLength
           = ensureVisible m selectedIndex listLength"
    by (simp add: ensureVisible_steps step_idem [OF A MO0 MOA])
  have range: "0 \<le> sint (viewportOffset (ensureVisible m selectedIndex listLength))
      \<and> sint (viewportOffset (ensureVisible m selectedIndex listLength)) \<le> sint ?mo"
    using MO0 by (cases "listLength = 0") (simp_all add: ensureVisible_steps clampOffset_sint)
  from idem range show ?thesis
    by (simp add: word_sle_eq MO [symmetric] availableHeight_sint)
qed

theorem C7_ensureVisible_idempotent_witness:
  "0 \<le>s (100 :: go_int)
   \<and> viewportOffset (ensureVisible exampleModel 50 100) = 33
   \<and> ensureVisible (ensureVisible exampleModel 50 100) 50 100 = ensureVisible exampleModel 50 100
   \<and> 0 \<le>s viewportOffset (ensureVisible exampleModel 50 100)
   \<and> sint (viewportOffset (ensureVisible exampleModel 50 100)) \<le> 82
   \<and> 22 - 2 ^ 63 \<le> sint (height exampleModel)
   \<and> sint (availableHeight exampleModel) = 18"
proof -
  have h: "0 \<le>s (100 :: go_int)" "22 - 2 ^ 63 \<le> sint (height exampleModel)"
    by (simp_all add: word_sle_eq exampleModel_def)
  have v: "viewportOffset (ensureVisible exampleModel 50 100) = 33"
    "max 5 (sint (height exampleModel) - 22) = 18"
    by code_simp+
  from C7_ensureVisible_idempotent [OF h(1), of exampleModel 50] h(2) v(2)
  have a: "sint (availableHeight exampleModel) = 18"
    by simp
  from C7_ensureVisible_idempotent [OF h(1), of exampleModel 50] a
  have b: "ensureVisible (ensureVisible exampleModel 50 100) 50 100 = ensureVisible exampleModel 50 100"
    "0 \<le>s viewportOffset (ensureVisible exampleModel 50 100)"
    "sint (viewportOffset (ensureVisible exampleModel 50 100)) \<le> 82"
    by simp_all
  from h v(1) a b show ?thesis by blast
qed

subsection \<open>C8: unknown commands\<close>

text \<open>
  C8: when the verb of the command line is not one that \<open>executeVimCommand\<close> has a case
  for, the model is unchanged but for the status message, which is \<open>Unknown command: \<close>
  followed by the verb, and no command is returned.
\<close>

theorem C8_unknown_verb:
  assumes "Command.Name (ParseCommand commandStr) \<notin> set recognizedVerbs"
  shows "executeVimCommand m commandStr =
     (m\<lparr>statusMessage := ''Unknown command: '' @ Command.Name (ParseCommand commandStr)\<rparr>, None)"
  using assms by (simp add: executeVimCommand_def recognizedVerbs_def Let_def)

lemma ParseCommand_selectall: "ParseCommand ''selectall now'' = \<lparr> Command.Name = ''selectall'', Args = [''now''] \<rparr>"
  by code_simp

theorem C8_unknown_verb_witness:
  "Command.Name (ParseCommand ''selectall now'') \<notin> set recognizedVerbs
   \<and> executeVimCommand exampleModel ''selectall now''
       = (exampleModel\<lparr>statusMessage := ''Unknown command: selectall''\<rparr>, None)"
  using C8_unknown_verb [of "''selectall now''" exampleModel]
  by (simp add: ParseCommand_selectall recognizedVerbs_def)

subsection \<open>C9: the set of selected instances\<close>

text \<open>
  C9, as stated, fails: a change of screen does not clear the selection. With ec2-1
  marked on the EC2 screen, \<open>tab\<close> moves to the S3 screen and ec2-1 is still marked.
\<close>

theorem C9_counterexample:
  "map_option (\<lambda>(m, c). (currentScreen m, ec2SelectedInstances m ''ec2-1''))
     (Update noUnicode noOther (exampleModel\<lparr>ec2SelectedInstances := [''ec2-1'' \<mapsto> True]\<rparr>) (KeyPress ''tab''))
   = Some (s3Screen, Some True)"
  by code_simp

lemma executeVimCommand_selection:
  "Command.Name (ParseCommand commandStr) \<noteq> ''sa'' \<Longrightarrow>
   Command.Name (ParseCommand commandStr) \<noteq> ''da'' \<Longrightarrow>
   ec2SelectedInstances (fst (executeVimCommand m commandStr)) = ec2SelectedInstances m"
  by (simp add: executeVimCommand_def Let_def clearSearch_def split: option.splits)

text \<open>
  C9 (amended): in Normal mode with no dialog and no legacy filter before the message
  switch, the completion message of a bulk action empties the selection, whether
  instances failed or not; \<open>x\<close> on the EC2 screen empties it; \<open>tab\<close> leaves it as it is.
  The command \<open>da\<close> on the EC2 screen empties it, and every command but \<open>sa\<close> and \<open>da\<close>,
  the changes of screen among them, leaves it as it is.
\<close>

theorem C9_selection_set:
  "(noDialog m \<and> Mode (vimState m) = NormalMode \<and> \<not> filtering m \<longrightarrow>
       (\<exists>m'. Update unicodeLower other m (BulkActionCompleted b) = Some (m', Some loadEC2Instances)
           \<and> ec2SelectedInstances m' = Map.empty)
     \<and> (currentScreen m = ec2Screen \<longrightarrow>
          (\<exists>m'. Update unicodeLower other m (KeyPress ''x'') = Some (m', None)
             \<and> ec2SelectedInstances m' = Map.empty))
     \<and> (\<exists>m' c. Update unicodeLower other m (KeyPress ''tab'') = Some (m', c)
           \<and> ec2SelectedInstances m' = ec2SelectedInstances m))
   \<and> (currentScreen m = ec2Screen \<and> Command.Name (ParseCommand commandStr) = ''da'' \<longrightarrow>
        ec2SelectedInstances (fst (executeVimCommand m commandStr)) = Map.empty)
   \<and> (Command.Name (ParseCommand commandStr) \<noteq> ''sa''
      \<and> Command.Name (ParseCommand commandStr) \<noteq> ''da'' \<longrightarrow>
        ec2SelectedInstances (fst (executeVimCommand m commandStr)) = ec2SelectedInstances m)"
proof -
  have tab: "\<exists>m' c. Update unicodeLower other m (KeyPress ''tab'') = Some (m', c)
           \<and> ec2SelectedInstances m' = ec2SelectedInstances m"
    if "noDialog m" "Mode (vimState m) = NormalMode" "\<not> filtering m"
    using that by (simp add: Update_normal_mode clearSearch_def Let_def)
  have da: "ec2SelectedInstances (fst (executeVimCommand m commandStr)) = Map.empty"
    if "currentScreen m = ec2Screen" "Command.Name (ParseCommand commandStr) = ''da''"
    using that by (simp add: executeVimCommand_def Let_def)
  from tab da show ?thesis
    by (simp add: Update_normal_mode executeVimCommand_selection)
qed

theorem C9_selection_set_witness:
  "noDialog exampleSelected \<and> Mode (vimState exampleSelected) = NormalMode
   \<and> \<not> filtering exampleSelected
   \<and> currentScreen exampleSelected = ec2Screen
   \<and> ec2SelectedInstances exampleSelected ''ec2-1'' = Some True
   \<and> (\<exists>m'. Update noUnicode noOther exampleSelected
               (BulkActionCompleted \<lparr> action = ''stop'', successCount = 0, failureCount = 1 \<rparr>)
             = Some (m', Some loadEC2Instances)
          \<and> ec2SelectedInstances m' = Map.empty)
   \<and> (\<exists>m'. Update noUnicode noOther exampleSelected (KeyPress ''x'') = Some (m', None)
          \<and> ec2SelectedInstances m' = Map.empty)
   \<and> (\<exists>m' c. Update noUnicode noOther exampleSelected (KeyPress ''tab'') = Some (m', c)
          \<and> ec2SelectedInstances m' ''ec2-1'' = Some True)
   \<and> Command.Name (ParseCommand ''da'') = ''da''
   \<and> ec2SelectedInstances (fst (executeVimCommand exampleSelected ''da'')) = Map.empty
   \<and> Command.Name (ParseCommand ''s3'') \<noteq> ''sa'' \<and> Command.Name (ParseCommand ''s3'') \<noteq> ''da''
   \<and> ec2SelectedInstances (fst (executeVimCommand exampleSelected ''s3'')) ''ec2-1'' = Some True"
proof -
  have h: "noDialog exampleSelected \<and> Mode (vimState exampleSelected) = NormalMode
      \<and> \<not> filtering exampleSelected"
    "currentScreen exampleSelected = ec2Screen"
    "ec2SelectedInstances exampleSelected ''ec2-1'' = Some True"
    by code_simp+
  have da: "Command.Name (ParseCommand ''da'') = ''da''"
    by code_simp
  have s3: "Command.Name (ParseCommand ''s3'') \<noteq> ''sa'' \<and> Command.Name (ParseCommand ''s3'') \<noteq> ''da''"
    by code_simp
  from C9_selection_set [where m = exampleSelected and other = noOther
      and unicodeLower = noUnicode
      and b = "\<lparr> action = ''stop'', successCount = 0, failureCount = 1 \<rparr>"
      and commandStr = "''da''"] h da
  have a: "\<exists>m'. Update noUnicode noOther exampleSelected
               (BulkActionCompleted \<lparr> action = ''stop'', successCount = 0, failureCount = 1 \<rparr>)
             = Some (m', Some loadEC2Instances)
          \<and> ec2SelectedInstances m' = Map.empty"
    "\<exists>m'. Update noUnicode noOther exampleSelected (KeyPress ''x'') = Some (m', None)
          \<and> ec2SelectedInstances m' = Map.empty"
    "\<exists>m' c. Update noUnicode noOther exampleSelected (KeyPress ''tab'') = Some (m', c)
          \<and> ec2SelectedInstances m' ''ec2-1'' = Some True"
    "ec2SelectedInstances (fst (executeVimCommand exampleSelected ''da'')) = Map.empty"
    unfolding h(3) [symmetric] by metis+
  from C9_selection_set [where m = exampleSelected and other = noOther
      and unicodeLower = noUnicode
      and b = "\<lparr> action = ''stop'', successCount = 0, failureCount = 1 \<rparr>"
      and commandStr = "''s3''"] s3
  have b: "ec2SelectedInstances (fst (executeVimCommand exampleSelected ''s3'')) ''ec2-1'' = Some True"
    unfolding h(3) [symmetric] by metis
  from h da s3 a b show ?thesis by blast
qed

subsection \<open>C10: the current match stays inside the matches\<close>

lemma matchInBounds_NewState: "matchInBounds NewState"
  by (simp add: matchInBounds_def NewState_def)

lemma matchInBounds_HandleKey: "matchInBounds s \<Longrightarrow> matchInBounds (snd (HandleKey s msg))"
  by (auto simp: matchInBounds_def HandleKey_def handleSearchMode_def handleCommandMode_def
      split: Mode.splits)

lemma matchInBounds_SearchItems: "matchInBounds (SearchItems unicodeLower s items)"
proof -
  have "list_all (\<lambda>i. 0 \<le> i) (map int (search_spec unicodeLower (SearchQuery s) items))"
    by (simp add: list_all_iff)
  then show ?thesis
    using SearchResults_SearchItems [of unicodeLower s items]
    by (auto simp: matchInBounds_def SearchItems_def Let_def)
qed

lemma smod_step:
  fixes c n :: int
  assumes "0 \<le> c" and "c < n"
  shows "0 \<le> (c + 1) smod n \<and> (c + 1) smod n < n"
proof -
  have "(c + 1) smod n = (c + 1) mod n"
    using assms by (simp add: signed_modulo_int_def sgn_if)
  with assms show ?thesis by simp
qed

lemma NextMatch_ok:
  assumes "matchInBounds s"
  shows "\<exists>v s'. NextMatch s = Some (v, s') \<and> matchInBounds s'
           \<and> SearchResults s' = SearchResults s
           \<and> (SearchResults s = [] \<and> v = - 1 \<or> SearchResults s \<noteq> [] \<and> v \<in> set (SearchResults s) \<and> 0 \<le> v)"
proof (cases "SearchResults s = []")
  case True
  with assms show ?thesis by (simp add: NextMatch_def)
next
  case False
  with assms have c: "0 \<le> CurrentMatch s" "CurrentMatch s < int (length (SearchResults s))"
    and pos: "list_all (\<lambda>i. 0 \<le> i) (SearchResults s)"
    by (auto simp: matchInBounds_def)
  let ?c = "(CurrentMatch s + 1) smod int (length (SearchResults s))"
  have b: "0 \<le> ?c" "?c < int (length (SearchResults s))"
    using smod_step [OF c] by auto
  then have "SearchResults s ! nat ?c \<in> set (SearchResults s)" by simp
  with pos have "0 \<le> SearchResults s ! nat ?c" by (simp add: list_all_iff)
  with False b pos show ?thesis
    by (simp add: NextMatch_def Let_def go_index_def matchInBounds_def)
qed

lemma PrevMatch_ok:
  assumes "matchInBounds s"
  shows "\<exists>v s'. PrevMatch s = Some (v, s') \<and> matchInBounds s'
           \<and> SearchResults s' = SearchResults s
           \<and> (SearchResults s = [] \<and> v = - 1 \<or> SearchResults s \<noteq> [] \<and> v \<in> set (SearchResults s) \<and> 0 \<le> v)"
proof (cases "SearchResults s = []")
  case True
  with assms show ?thesis by (simp add: PrevMatch_def)
next
  case False
  with assms have c: "0 \<le> CurrentMatch s" "CurrentMatch s < int (length (SearchResults s))"
    and pos: "list_all (\<lambda>i. 0 \<le> i) (SearchResults s)"
    by (auto simp: matchInBounds_def)
  let ?c = "if CurrentMatch s - 1 < 0 then int (length (SearchResults s)) - 1 else CurrentMatch s - 1"
  have b: "0 \<le> ?c" "?c < int (length (SearchResults s))"
    using c by auto
  then have "SearchResults s ! nat ?c \<in> set (SearchResults s)"
    using nth_mem [of "nat ?c" "SearchResults s"] by (simp del: nth_mem)
  with pos have "0 \<le> SearchResults s ! nat ?c" by (simp add: list_all_iff)
  with False b pos c \<open>SearchResults s ! nat ?c \<in> set (SearchResults s)\<close> show ?thesis
    by (auto simp: PrevMatch_def Let_def go_index_def matchInBounds_def)
qed

lemma GetCurrentMatch_ok:
  assumes "matchInBounds s"
  shows "\<exists>v. GetCurrentMatch s = Some v
           \<and> (SearchResults s = [] \<and> v = - 1 \<or> SearchResults s \<noteq> [] \<and> v \<in> set (SearchResults s) \<and> 0 \<le> v)"
proof (cases "SearchResults s = []")
  case True
  then show ?thesis by (simp add: GetCurrentMatch_def)
next
  case False
  with assms have c: "0 \<le> CurrentMatch s" "CurrentMatch s < int (length (SearchResults s))"
    and pos: "list_all (\<lambda>i. 0 \<le> i) (SearchResults s)"
    by (auto simp: matchInBounds_def)
  then have "SearchResults s ! nat (CurrentMatch s) \<in> set (SearchResults s)" by simp
  with pos have "0 \<le> SearchResults s ! nat (CurrentMatch s)" by (simp add: list_all_iff)
  with False c show ?thesis
    by (simp add: GetCurrentMatch_def go_index_def)
qed

lemma applyOp_matchInBounds:
  assumes "matchInBounds s"
  shows "\<exists>s'. applyOp unicodeLower s op = Some s' \<and> matchInBounds s'"
proof (cases op)
  case (OpHandleKey msg)
  with assms show ?thesis by (simp add: matchInBounds_HandleKey)
next
  case OpNextMatch
  with NextMatch_ok [OF assms] show ?thesis by auto
next
  case OpPrevMatch
  with PrevMatch_ok [OF assms] show ?thesis by auto
next
  case OpGetCurrentMatch
  with GetCurrentMatch_ok [OF assms] assms show ?thesis by auto
next
  case (OpSearchItems items)
  then show ?thesis by (simp add: matchInBounds_SearchItems)
qed (use assms in \<open>auto simp: matchInBounds_def EnterSearchMode_def EnterCommandMode_def\<close>)

lemma runOps_matchInBounds:
  "matchInBounds s \<Longrightarrow> \<exists>s'. runOps unicodeLower s ops = Some s' \<and> matchInBounds s'"
proof (induction ops arbitrary: s)
  case Nil
  then show ?case by simp
next
  case (Cons op ops)
  from applyOp_matchInBounds [OF Cons.prems, of unicodeLower op]
  obtain s1 where "applyOp unicodeLower s op = Some s1" "matchInBounds s1" by blast
  with Cons.IH [of s1] show ?case by simp
qed

text \<open>
  C10: after every sequence of operations from \<open>NewState\<close> no index expression has
  panicked, \<open>CurrentMatch\<close> lies in \<open>[0, len(SearchResults))\<close> whenever \<open>SearchResults\<close> is
  not empty, and \<open>NextMatch\<close>, \<open>PrevMatch\<close> and \<open>GetCurrentMatch\<close> return without a panic,
  \<open>-1\<close> exactly when \<open>SearchResults\<close> is empty and an element of it otherwise.
\<close>

theorem C10_matches_in_bounds:
  "\<exists>s. runOps unicodeLower NewState ops = Some s
     \<and> (SearchResults s \<noteq> [] \<longrightarrow>
          0 \<le> CurrentMatch s \<and> CurrentMatch s < int (length (SearchResults s)))
     \<and> (\<exists>v s'. NextMatch s = Some (v, s')
          \<and> (v = - 1 \<longleftrightarrow> SearchResults s = [])
          \<and> (SearchResults s \<noteq> [] \<longrightarrow> v \<in> set (SearchResults s)))
     \<and> (\<exists>v s'. PrevMatch s = Some (v, s')
          \<and> (v = - 1 \<longleftrightarrow> SearchResults s = [])
          \<and> (SearchResults s \<noteq> [] \<longrightarrow> v \<in> set (SearchResults s)))
     \<and> (\<exists>v. GetCurrentMatch s = Some v
          \<and> (v = - 1 \<longleftrightarrow> SearchResults s = [])
          \<and> (SearchResults s \<noteq> [] \<longrightarrow> v \<in> set (SearchResults s)))"
proof -
  from runOps_matchInBounds [OF matchInBounds_NewState, of unicodeLower ops]
  obtain s where run: "runOps unicodeLower NewState ops = Some s" and inv: "matchInBounds s" by blast
  have bounds: "SearchResults s \<noteq> [] \<longrightarrow>
      0 \<le> CurrentMatch s \<and> CurrentMatch s < int (length (SearchResults s))"
    using inv by (auto simp: matchInBounds_def)
  from NextMatch_ok [OF inv]
  have n: "\<exists>v s'. NextMatch s = Some (v, s')
          \<and> (v = - 1 \<longleftrightarrow> SearchResults s = [])
          \<and> (SearchResults s \<noteq> [] \<longrightarrow> v \<in> set (SearchResults s))"
    by force
  from PrevMatch_ok [OF inv]
  have p: "\<exists>v s'. PrevMatch s = Some (v, s')
          \<and> (v = - 1 \<longleftrightarrow> SearchResults s = [])
          \<and> (SearchResults s \<noteq> [] \<longrightarrow> v \<in> set (SearchResults s))"
    by force
  from GetCurrentMatch_ok [OF inv]
  have g: "\<exists>v. GetCurrentMatch s = Some v
          \<and> (v = - 1 \<longleftrightarrow> SearchResults s = [])
          \<and> (SearchResults s \<noteq> [] \<longrightarrow> v \<in> set (SearchResults s))"
    by force
  from run bounds n p g show ?thesis by blast
qed

theorem C10_matches_in_bounds_witness:
  "\<exists>s. runOps noUnicode NewState
          [OpEnterSearchMode, OpHandleKey ''e'', OpSearchItems exampleItems, OpNextMatch, OpNextMatch] = Some s
     \<and> SearchResults s = [0, 1, 3] \<and> CurrentMatch s = 2
     \<and> 0 \<le> CurrentMatch s \<and> CurrentMatch s < int (length (SearchResults s))
     \<and> (\<exists>v s'. NextMatch s = Some (v, s') \<and> v \<noteq> - 1 \<and> v \<in> set (SearchResults s))
     \<and> (\<exists>v s'. PrevMatch s = Some (v, s') \<and> v \<noteq> - 1 \<and> v \<in> set (SearchResults s))
     \<and> (\<exists>v. GetCurrentMatch s = Some v \<and> v \<noteq> - 1 \<and> v \<in> set (SearchResults s))"
proof -
  from C10_matches_in_bounds
    [of noUnicode
      "[OpEnterSearchMode, OpHandleKey ''e'', OpSearchItems exampleItems, OpNextMatch, OpNextMatch]"]
  obtain s where s: "runOps noUnicode NewState
          [OpEnterSearchMode, OpHandleKey ''e'', OpSearchItems exampleItems, OpNextMatch, OpNextMatch] = Some s"
     "SearchResults s \<noteq> [] \<longrightarrow>
          0 \<le> CurrentMatch s \<and> CurrentMatch s < int (length (SearchResults s))"
     "\<exists>v s'. NextMatch s = Some (v, s')
          \<and> (v = - 1 \<longleftrightarrow> SearchResults s = [])
          \<and> (SearchResults s \<noteq> [] \<longrightarrow> v \<in> set (SearchResults s))"
     "\<exists>v s'. PrevMatch s = Some (v, s')
          \<and> (v = - 1 \<longleftrightarrow> SearchResults s = [])
          \<and> (SearchResults s \<noteq> [] \<longrightarrow> v \<in> set (SearchResults s))"
     "\<exists>v. GetCurrentMatch s = Some v
          \<and> (v = - 1 \<longleftrightarrow> SearchResults s = [])
          \<and> (SearchResults s \<noteq> [] \<longrightarrow> v \<in> set (SearchResults s))"
    by blast
  have e: "map_option (\<lambda>s. (SearchResults s, CurrentMatch s)) (runOps noUnicode NewState
          [OpEnterSearchMode, OpHandleKey ''e'', OpSearchItems exampleItems, OpNextMatch, OpNextMatch])
       = Some ([0, 1, 3], 2)"
    by code_simp
  with s(1) have r: "SearchResults s = [0, 1, 3]" "CurrentMatch s = 2" by simp_all
  then have ne: "SearchResults s \<noteq> []" by simp
  from s ne r show ?thesis by blast
qed

end
